theory Spec2Isabelle
  imports Main "HOL-Library.Log_Nat"
begin

section \<open>Shoe store back end: orders, inventory, cart and login lockout\<close>

text \<open>
  The development embeds the order workflow (services/orders.service.js and the orders
  repository), the cart repository with its model hook, and the login lockout of the
  users service. A missing or undefined property is \<open>None\<close>, every thrown error is
  a value of a sum type, and the document store is a record of maps that each operation
  takes and returns. The checks of the controllers and of the request validation schemas
  are not part of the model: the functions are the services and repositories as they can
  be called.

  The schemas declare quantities, stock counts and prices as \<open>Number\<close> with a lower bound
  and no integer check. The documents and the functions on them are therefore written
  over a type \<open>'n\<close> of numbers with the operations the code uses (\<open>+\<close>, \<open>-\<close>, \<open>*\<close>, \<open><\<close>,
  \<open>\<le>\<close>, the constants 0 and 1). Two instances are used: \<open>double\<close>, the binary
  floating-point numbers of the host language with their rounding, and \<open>int\<close>, on which
  the host arithmetic is exact below \<open>2 ^ 53\<close>.
\<close>

subsection \<open>Values of the host language\<close>

type_synonym ident = string

text \<open>Truthiness of an optional string: undefined and the empty string are falsy.\<close>

definition truthy :: "string option \<Rightarrow> bool" where
  "truthy s = (case s of None \<Rightarrow> False | Some t \<Rightarrow> t \<noteq> [])"

text \<open>
  \<open>undefined < n\<close> compares NaN with a number and is false; a defined number compares
  as usual.
\<close>

definition js_less :: "('n::{zero,one,plus,minus,times,ord}) option \<Rightarrow> 'n \<Rightarrow> bool" where
  "js_less a n = (case a of None \<Rightarrow> False | Some m \<Rightarrow> m < n)"

text \<open>Array.prototype.findIndex: the first position that satisfies the predicate,
  \<open>None\<close> standing for -1.\<close>

fun findIndex :: "('a \<Rightarrow> bool) \<Rightarrow> 'a list \<Rightarrow> nat option" where
  "findIndex P [] = None"
| "findIndex P (x # xs) = (if P x then Some 0 else map_option Suc (findIndex P xs))"

text \<open>String.prototype.trim, on the ASCII white space characters.\<close>

definition is_space :: "char \<Rightarrow> bool" where
  "is_space c = (c \<in> set [CHR 0x09, CHR 0x0A, CHR 0x0B, CHR 0x0C, CHR 0x0D, CHR 0x20])"

definition trim :: "string \<Rightarrow> string" where
  "trim s = rev (dropWhile is_space (rev (dropWhile is_space s)))"

text \<open>String.prototype.toLowerCase, on the ASCII letters.\<close>

definition lower_char :: "char \<Rightarrow> char" where
  "lower_char c =
     (case map_of (zip ''ABCDEFGHIJKLMNOPQRSTUVWXYZ'' ''abcdefghijklmnopqrstuvwxyz'') c of
        None \<Rightarrow> c
      | Some l \<Rightarrow> l)"

definition toLowerCase :: "string \<Rightarrow> string" where
  "toLowerCase s = map lower_char s"

subsection \<open>Numbers\<close>

text \<open>
  A finite double is a signed 53-bit significand and a binary exponent:
  \<open>Double m e\<close> stands for \<open>m * 2 ^ e\<close>, with \<open>2 ^ 52 \<le> \<bar>m\<bar> < 2 ^ 53\<close>, and zero is
  \<open>Double 0 0\<close>. The exponent is not bounded: overflow to infinity, subnormal numbers,
  NaN and the sign of zero are outside the model. \<open>roundDouble M e\<close> is the double
  nearest to \<open>M * 2 ^ e\<close>, a tie going to the even significand, which is the rounding
  of every arithmetic operation of the host language.
\<close>

datatype double = Double int int

fun mantissa :: "double \<Rightarrow> int" where
  "mantissa (Double m e) = m"

fun exponent :: "double \<Rightarrow> int" where
  "exponent (Double m e) = e"

definition roundDouble :: "int \<Rightarrow> int \<Rightarrow> double" where
  "roundDouble M e =
     (if M = 0 then Double 0 0
      else
        (let b = bitlen \<bar>M\<bar> in
         if b \<le> 53 then Double (M * 2 ^ nat (53 - b)) (e - (53 - b))
         else
           (let k = nat (b - 53);
                q = \<bar>M\<bar> div 2 ^ k;
                r = \<bar>M\<bar> mod 2 ^ k;
                h = 2 ^ (k - 1);
                q' = (if r < h then q else if h < r then q + 1
                      else if even q then q else q + 1)
            in if q' = 2 ^ 53 then Double (sgn M * 2 ^ 52) (e + int k + 1)
               else Double (sgn M * q') (e + int k))))"

text \<open>The significand of a double over a common, smaller exponent.\<close>

definition alignedTo :: "int \<Rightarrow> double \<Rightarrow> int" where
  "alignedTo e x = mantissa x * 2 ^ nat (exponent x - e)"

instantiation double :: "{zero,one,plus,minus,times,ord}"
begin

definition zero_double :: double where
  "zero_double = Double 0 0"

definition one_double :: double where
  "one_double = Double (2 ^ 52) (- 52)"

definition plus_double :: "double \<Rightarrow> double \<Rightarrow> double" where
  "plus_double x y =
     (let e = min (exponent x) (exponent y)
      in roundDouble (alignedTo e x + alignedTo e y) e)"

definition minus_double :: "double \<Rightarrow> double \<Rightarrow> double" where
  "minus_double x y =
     (let e = min (exponent x) (exponent y)
      in roundDouble (alignedTo e x - alignedTo e y) e)"

definition times_double :: "double \<Rightarrow> double \<Rightarrow> double" where
  "times_double x y = roundDouble (mantissa x * mantissa y) (exponent x + exponent y)"

definition less_double :: "double \<Rightarrow> double \<Rightarrow> bool" where
  "less_double x y =
     (let e = min (exponent x) (exponent y) in alignedTo e x < alignedTo e y)"

definition less_eq_double :: "double \<Rightarrow> double \<Rightarrow> bool" where
  "less_eq_double x y =
     (let e = min (exponent x) (exponent y) in alignedTo e x \<le> alignedTo e y)"

instance ..

end


subsection \<open>Documents\<close>

text \<open>
  Identifiers are ObjectIds, written as the string they print as. A string handed to a
  query or to a schema path of type ObjectId is cast first; \<open>castObjectId\<close> is the cast
  of the 24-digit hexadecimal form, which accepts digits of either case and prints in
  lower case. Where the code compares a printed identifier with the string the caller
  supplied (the carts repository), the model keeps the two apart and takes the cast as
  a parameter.
\<close>

definition isHexDigit :: "char \<Rightarrow> bool" where
  "isHexDigit c = (c \<in> set ''0123456789abcdefABCDEF'')"

definition castObjectId :: "string \<Rightarrow> ident option" where
  "castObjectId s =
     (if length s = 24 \<and> list_all isHexDigit s then Some (toLowerCase s) else None)"

record 'n size_option =
  size_name :: string
  size_stock :: 'n

record 'n color_option =
  color_name :: string
  color_stock :: 'n

text \<open>The product schema (the fields the order and cart code reads). The schema has a
  path \<open>stock\<close> and no path \<open>stockQuantity\<close>.\<close>

record 'n product =
  p_name :: string
  p_price :: 'n
  p_stock :: 'n
  p_sizes :: "'n size_option list"
  p_colors :: "'n color_option list"
  p_onSale :: bool
  p_salePrice :: "'n option"
  p_images :: "string list"

record 'n cart_item =
  ci_product :: ident
  ci_quantity :: 'n
  ci_price :: 'n
  ci_salePrice :: "'n option"
  ci_selectedSize :: "string option"
  ci_selectedColor :: "string option"

record 'n cart =
  c_user :: ident
  c_items :: "'n cart_item list"
  c_totalPrice :: 'n

record 'n order_item =
  oi_productId :: ident
  oi_name :: string
  oi_price :: 'n
  oi_salePrice :: "'n option"
  oi_quantity :: 'n
  oi_selectedSize :: "string option"
  oi_selectedColor :: "string option"
  oi_imageUrl :: "string option"

record shipping_address =
  street :: string
  city :: string
  state :: string
  zipCode :: string
  country :: string

text \<open>The object the service hands to the repository, and the stored order document.\<close>

record 'n order_data =
  od_user :: ident
  od_items :: "'n order_item list"
  od_totalAmount :: 'n
  od_shippingAddress :: shipping_address
  od_paymentMethod :: string
  od_orderStatus :: string
  od_paymentStatus :: string

record 'n order =
  o_id :: ident
  o_user :: ident
  o_items :: "'n order_item list"
  o_totalAmount :: 'n
  o_shippingAddress :: shipping_address
  o_paymentMethod :: string
  o_paymentStatus :: string
  o_orderStatus :: string

text \<open>The collections. A cart is unique per user, so carts are keyed by the user.\<close>

record 'n db =
  products :: "ident \<rightharpoonup> 'n product"
  orders :: "ident \<rightharpoonup> 'n order"
  carts :: "ident \<rightharpoonup> 'n cart"

datatype 'n error =
    InvalidUserId
  | InvalidProductId
  | InvalidOrderId
  | QuantityTooSmall
  | TypeError
  | CastError
  | EmptyCart
  | ProductNotFound ident
  | SizeNotFound "string option" string
  | ColorNotFound "string option" string
  | InsufficientStock string "string option" "string option" 'n 'n
  | InsufficientSizeStock string "string option"
  | InsufficientColorStock string "string option"
  | InsufficientSimpleStock string
  | ValidationError
  | OrderNotFound
  | InvalidOrderStatus string
  | CartProductNotFound
  | NotEnoughStock string "'n option"
  | ExceedsStock 'n string
  | CartNotFound
  | ItemNotFoundWithVariations
  | ItemNotFound
  | CartUnavailable

subsection \<open>The order model: construction, validation and the pre-save hook\<close>

definition validOrderStatuses :: "string list" where
  "validOrderStatuses =
     [''pending'', ''processing'', ''shipped'', ''delivered'', ''cancelled'', ''returned'']"

definition validPaymentStatuses :: "string list" where
  "validPaymentStatuses = [''pending'', ''paid'', ''failed'', ''refunded'']"

definition validPaymentMethods :: "string list" where
  "validPaymentMethods = [''credit_card'', ''paypal'', ''bank_transfer'', ''cash_on_delivery'']"

text \<open>Casting into the order item schema trims the paths declared with \<open>trim\<close>
  (selectedSize, selectedColor, imageUrl; the name is stored as given); an undefined
  \<open>salePrice\<close> takes the default null, which is \<open>None\<close> as well.\<close>

definition new_OrderItem :: "('n::{zero,one,plus,minus,times,ord}) order_item \<Rightarrow> 'n order_item" where
  "new_OrderItem item =
     item\<lparr>oi_selectedSize := map_option trim (oi_selectedSize item),
          oi_selectedColor := map_option trim (oi_selectedColor item),
          oi_imageUrl := map_option trim (oi_imageUrl item)\<rparr>"

definition new_Address :: "shipping_address \<Rightarrow> shipping_address" where
  "new_Address a =
     \<lparr>street = trim (street a), city = trim (city a), state = trim (state a),
      zipCode = trim (zipCode a), country = trim (country a)\<rparr>"

definition new_Order :: "ident \<Rightarrow> ('n::{zero,one,plus,minus,times,ord}) order_data \<Rightarrow> 'n order" where
  "new_Order newId orderData =
     \<lparr>o_id = newId,
      o_user = od_user orderData,
      o_items = map new_OrderItem (od_items orderData),
      o_totalAmount = od_totalAmount orderData,
      o_shippingAddress = new_Address (od_shippingAddress orderData),
      o_paymentMethod = od_paymentMethod orderData,
      o_paymentStatus = od_paymentStatus orderData,
      o_orderStatus = od_orderStatus orderData\<rparr>"

definition validate_item :: "('n::{zero,one,plus,minus,times,ord}) order_item \<Rightarrow> bool" where
  "validate_item item =
     (oi_name item \<noteq> [] \<and> 0 \<le> oi_price item \<and>
      (case oi_salePrice item of None \<Rightarrow> True | Some sp \<Rightarrow> 0 \<le> sp) \<and>
      1 \<le> oi_quantity item)"

definition validate_address :: "shipping_address \<Rightarrow> bool" where
  "validate_address a =
     (street a \<noteq> [] \<and> city a \<noteq> [] \<and> state a \<noteq> [] \<and> zipCode a \<noteq> [] \<and> country a \<noteq> [])"

definition validate_order :: "('n::{zero,one,plus,minus,times,ord}) order \<Rightarrow> bool" where
  "validate_order ord =
     (list_all validate_item (o_items ord) \<and>
      0 \<le> o_totalAmount ord \<and>
      validate_address (o_shippingAddress ord) \<and>
      o_paymentMethod ord \<in> set validPaymentMethods \<and>
      o_paymentStatus ord \<in> set validPaymentStatuses \<and>
      o_orderStatus ord \<in> set validOrderStatuses)"

text \<open>orderSchema.pre('save'): the effective price of a stored line and the total.\<close>

definition item_effectivePrice :: "('n::{zero,one,plus,minus,times,ord}) order_item \<Rightarrow> 'n" where
  "item_effectivePrice item =
     (case oi_salePrice item of
        None \<Rightarrow> oi_price item
      | Some sp \<Rightarrow> if sp < oi_price item then sp else oi_price item)"

fun order_total :: "('n::{zero,one,plus,minus,times,ord}) order_item list \<Rightarrow> 'n \<Rightarrow> 'n" where
  "order_total [] total' = total'"
| "order_total (item # items) total' =
     order_total items (total' + item_effectivePrice item * oi_quantity item)"

definition order_pre_save :: "('n::{zero,one,plus,minus,times,ord}) order \<Rightarrow> 'n order" where
  "order_pre_save ord = ord\<lparr>o_totalAmount := order_total (o_items ord) 0\<rparr>"

text \<open>save(): validation runs first, then the hook; the caller writes the result.\<close>

definition save_order :: "('n::{zero,one,plus,minus,times,ord}) order \<Rightarrow> 'n error + 'n order" where
  "save_order ord = (if validate_order ord then Inr (order_pre_save ord) else Inl ValidationError)"

subsection \<open>The orders repository\<close>

text \<open>The stock decrement of one line in createOrder.\<close>

definition decrementItem :: "('n::{zero,one,plus,minus,times,ord}) order_item \<Rightarrow> 'n product \<Rightarrow> 'n error + 'n product" where
  "decrementItem item product =
     (if p_sizes product \<noteq> [] then
        (case findIndex (\<lambda>s. Some (size_name s) = oi_selectedSize item) (p_sizes product) of
           None \<Rightarrow> Inl (InsufficientSizeStock (p_name product) (oi_selectedSize item))
         | Some sizeIndex \<Rightarrow>
             if size_stock (p_sizes product ! sizeIndex) < oi_quantity item
             then Inl (InsufficientSizeStock (p_name product) (oi_selectedSize item))
             else Inr (product\<lparr>p_sizes := (p_sizes product)[sizeIndex :=
                    (p_sizes product ! sizeIndex)\<lparr>size_stock :=
                       size_stock (p_sizes product ! sizeIndex) - oi_quantity item\<rparr>]\<rparr>))
      else if p_colors product \<noteq> [] then
        (case findIndex (\<lambda>c. Some (color_name c) = oi_selectedColor item) (p_colors product) of
           None \<Rightarrow> Inl (InsufficientColorStock (p_name product) (oi_selectedColor item))
         | Some colorIndex \<Rightarrow>
             if color_stock (p_colors product ! colorIndex) < oi_quantity item
             then Inl (InsufficientColorStock (p_name product) (oi_selectedColor item))
             else Inr (product\<lparr>p_colors := (p_colors product)[colorIndex :=
                    (p_colors product ! colorIndex)\<lparr>color_stock :=
                       color_stock (p_colors product ! colorIndex) - oi_quantity item\<rparr>]\<rparr>))
      else if p_stock product < oi_quantity item
        then Inl (InsufficientSimpleStock (p_name product))
        else Inr (product\<lparr>p_stock := p_stock product - oi_quantity item\<rparr>))"

text \<open>The loop of createOrder over the items of the new order: each product is read
  from the store, changed and saved before the next line is handled.\<close>

fun decrementStock :: "('n::{zero,one,plus,minus,times,ord}) order_item list \<Rightarrow> (ident \<rightharpoonup> 'n product) \<Rightarrow> 'n error + (ident \<rightharpoonup> 'n product)" where
  "decrementStock [] ps = Inr ps"
| "decrementStock (item # items) ps =
     (case ps (oi_productId item) of
        None \<Rightarrow> Inl (ProductNotFound (oi_productId item))
      | Some product \<Rightarrow>
          (case decrementItem item product of
             Inl e \<Rightarrow> Inl e
           | Inr product' \<Rightarrow> decrementStock items (ps(oi_productId item \<mapsto> product'))))"

text \<open>createOrder. The transaction is the function itself: a thrown error returns the
  store it was given (abortTransaction), success returns the store with the order and
  every stock write (commitTransaction). \<open>newId\<close> is the identifier the driver
  generates for the new document.\<close>

definition createOrder :: "ident \<Rightarrow> ('n::{zero,one,plus,minus,times,ord}) db \<Rightarrow> 'n order_data \<Rightarrow> ('n error + 'n order) \<times> 'n db" where
  "createOrder newId d orderData =
     (case save_order (new_Order newId orderData) of
        Inl e \<Rightarrow> (Inl e, d)
      | Inr newOrder \<Rightarrow>
          (case decrementStock (o_items newOrder) (products d) of
             Inl e \<Rightarrow> (Inl e, d)
           | Inr ps \<Rightarrow>
               (Inr newOrder, d\<lparr>products := ps, orders := (orders d)(newId \<mapsto> newOrder)\<rparr>)))"

text \<open>The stock increment of one line, the same code in updateOrderStatus and in
  deleteOrder.\<close>

definition revertItem :: "('n::{zero,one,plus,minus,times,ord}) order_item \<Rightarrow> 'n product \<Rightarrow> 'n product" where
  "revertItem item product =
     (if p_sizes product \<noteq> [] \<and> truthy (oi_selectedSize item) then
        (case findIndex (\<lambda>s. Some (size_name s) = oi_selectedSize item) (p_sizes product) of
           None \<Rightarrow> product
         | Some sizeIndex \<Rightarrow>
             product\<lparr>p_sizes := (p_sizes product)[sizeIndex :=
               (p_sizes product ! sizeIndex)\<lparr>size_stock :=
                  size_stock (p_sizes product ! sizeIndex) + oi_quantity item\<rparr>]\<rparr>)
      else if p_colors product \<noteq> [] \<and> truthy (oi_selectedColor item) then
        (case findIndex (\<lambda>c. Some (color_name c) = oi_selectedColor item) (p_colors product) of
           None \<Rightarrow> product
         | Some colorIndex \<Rightarrow>
             product\<lparr>p_colors := (p_colors product)[colorIndex :=
               (p_colors product ! colorIndex)\<lparr>color_stock :=
                  color_stock (p_colors product ! colorIndex) + oi_quantity item\<rparr>]\<rparr>)
      else product\<lparr>p_stock := p_stock product + oi_quantity item\<rparr>)"

text \<open>The reversal loop: a product that no longer exists is skipped.\<close>

fun revertStock :: "('n::{zero,one,plus,minus,times,ord}) order_item list \<Rightarrow> (ident \<rightharpoonup> 'n product) \<Rightarrow> (ident \<rightharpoonup> 'n product)" where
  "revertStock [] ps = ps"
| "revertStock (item # items) ps =
     (case ps (oi_productId item) of
        None \<Rightarrow> revertStock items ps
      | Some product \<Rightarrow> revertStock items (ps(oi_productId item \<mapsto> revertItem item product)))"

definition repo_updateOrderStatus :: "('n::{zero,one,plus,minus,times,ord}) db \<Rightarrow> ident \<Rightarrow> string \<Rightarrow> ('n error + 'n order) \<times> 'n db" where
  "repo_updateOrderStatus d orderId newStatus =
     (case orders d orderId of
        None \<Rightarrow> (Inl OrderNotFound, d)
      | Some ord \<Rightarrow>
          (let originalStatus = o_orderStatus ord in
           case save_order (ord\<lparr>o_orderStatus := newStatus\<rparr>) of
             Inl e \<Rightarrow> (Inl e, d)
           | Inr saved \<Rightarrow>
               (Inr saved,
                d\<lparr>orders := (orders d)(orderId \<mapsto> saved),
                  products :=
                    (if newStatus = ''cancelled'' \<and> originalStatus \<noteq> ''cancelled''
                     then revertStock (o_items saved) (products d)
                     else products d)\<rparr>)))"

text \<open>deleteOrder: the stock of every line is given back, then the order is removed;
  the deleted document is returned. A missing order throws inside the transaction.\<close>

definition repo_deleteOrder :: "('n::{zero,one,plus,minus,times,ord}) db \<Rightarrow> ident \<Rightarrow> ('n error + 'n order) \<times> 'n db" where
  "repo_deleteOrder d orderId =
     (case orders d orderId of
        None \<Rightarrow> (Inl OrderNotFound, d)
      | Some orderToDelete \<Rightarrow>
          (Inr orderToDelete,
           d\<lparr>products := revertStock (o_items orderToDelete) (products d),
             orders := (orders d)(orderId := None)\<rparr>))"

subsection \<open>The cart model and the carts repository\<close>

text \<open>cartSchema.pre('save'): the effective price of a cart line and the total. A cart
  line stores the price and the sale price handed over when it was added; it has no
  on-sale flag.\<close>

definition cart_item_effectivePrice :: "('n::{zero,one,plus,minus,times,ord}) cart_item \<Rightarrow> 'n" where
  "cart_item_effectivePrice item =
     (case ci_salePrice item of
        None \<Rightarrow> ci_price item
      | Some sp \<Rightarrow> if sp < ci_price item then sp else ci_price item)"

fun cart_total :: "('n::{zero,one,plus,minus,times,ord}) cart_item list \<Rightarrow> 'n \<Rightarrow> 'n" where
  "cart_total [] total' = total'"
| "cart_total (item # items) total' =
     cart_total items (total' + cart_item_effectivePrice item * ci_quantity item)"

definition cart_pre_save :: "('n::{zero,one,plus,minus,times,ord}) cart \<Rightarrow> 'n cart" where
  "cart_pre_save c = c\<lparr>c_totalPrice := cart_total (c_items c) 0\<rparr>"

definition validate_cart :: "('n::{zero,one,plus,minus,times,ord}) cart \<Rightarrow> bool" where
  "validate_cart c = list_all (\<lambda>item. 1 \<le> ci_quantity item) (c_items c)"

text \<open>cart.save(): validation, the hook, then the write under the cart's user.\<close>

definition save_cart :: "('n::{zero,one,plus,minus,times,ord}) db \<Rightarrow> 'n cart \<Rightarrow> ('n error + 'n cart) \<times> 'n db" where
  "save_cart d c =
     (if validate_cart c
      then (Inr (cart_pre_save c), d\<lparr>carts := (carts d)(c_user c \<mapsto> cart_pre_save c)\<rparr>)
      else (Inl ValidationError, d))"

definition createCart :: "('n::{zero,one,plus,minus,times,ord}) db \<Rightarrow> ident \<Rightarrow> ('n error + 'n cart) \<times> 'n db" where
  "createCart d userId = save_cart d \<lparr>c_user = userId, c_items = [], c_totalPrice = 0\<rparr>"

text \<open>The repository reads \<open>product.stockQuantity\<close>. The product schema declares no
  such path, so the read yields undefined for every product document.\<close>

definition stockQuantity :: "('n::{zero,one,plus,minus,times,ord}) product \<Rightarrow> 'n option" where
  "stockQuantity product = None"

text \<open>The test of findIndex in addItemToCart and updateItemQuantity:
  \<open>item.product.toString() === productId\<close> compares the printed identifier of the line
  with the string of the caller.\<close>

definition sameLine :: "string \<Rightarrow> string option \<Rightarrow> string option \<Rightarrow> ('n::{zero,one,plus,minus,times,ord}) cart_item \<Rightarrow> bool" where
  "sameLine productId selectedSize selectedColor item =
     (ci_product item = productId \<and> ci_selectedSize item = selectedSize \<and>
      ci_selectedColor item = selectedColor)"

text \<open>addItemToCart. \<open>Product.findById(productId)\<close> casts the string (a CastError when
  it cannot be cast) and the pushed line stores the identifier it casts to. The
  repository has no transaction: a cart created on the way stays when a later step
  throws.\<close>

definition repo_addItemToCart ::
  "(string \<Rightarrow> ident option) \<Rightarrow> ('n::{zero,one,plus,minus,times,ord}) db \<Rightarrow> ident \<Rightarrow> string \<Rightarrow> 'n \<Rightarrow> 'n \<Rightarrow> 'n option \<Rightarrow> string option \<Rightarrow> string option
     \<Rightarrow> ('n error + 'n cart) \<times> 'n db" where
  "repo_addItemToCart cast d userId productId quantity price salePrice selectedSize
       selectedColor =
     (case (case carts d userId of Some c \<Rightarrow> (Inr c, d) | None \<Rightarrow> createCart d userId) of
        (Inl e, d1) \<Rightarrow> (Inl e, d1)
      | (Inr cart, d1) \<Rightarrow>
          (case cast productId of
             None \<Rightarrow> (Inl CastError, d1)
           | Some castId \<Rightarrow>
               (case products d1 castId of
                  None \<Rightarrow> (Inl CartProductNotFound, d1)
                | Some product \<Rightarrow>
                    if js_less (stockQuantity product) quantity
                    then (Inl (NotEnoughStock (p_name product) (stockQuantity product)), d1)
                    else
                      (case findIndex (sameLine productId selectedSize selectedColor)
                              (c_items cart) of
                         Some existingItemIndex \<Rightarrow>
                           (let existing = c_items cart ! existingItemIndex;
                                updated = existing\<lparr>ci_quantity :=
                                            ci_quantity existing + quantity\<rparr>
                            in if js_less (stockQuantity product) (ci_quantity updated)
                               then (Inl (ExceedsStock quantity (p_name product)), d1)
                               else save_cart d1
                                      (cart\<lparr>c_items :=
                                         (c_items cart)[existingItemIndex := updated]\<rparr>))
                       | None \<Rightarrow>
                           save_cart d1
                             (cart\<lparr>c_items := c_items cart @
                                [\<lparr>ci_product = castId, ci_quantity = quantity,
                                  ci_price = price, ci_salePrice = salePrice,
                                  ci_selectedSize = selectedSize,
                                  ci_selectedColor = selectedColor\<rparr>]\<rparr>)))))"

text \<open>removeItemFromCart: an undefined selector matches every line of the product.\<close>

definition removeMatches :: "string \<Rightarrow> string option \<Rightarrow> string option \<Rightarrow> ('n::{zero,one,plus,minus,times,ord}) cart_item \<Rightarrow> bool" where
  "removeMatches productId selectedSize selectedColor item =
     (ci_product item = productId \<and>
      (selectedSize = None \<or> ci_selectedSize item = selectedSize) \<and>
      (selectedColor = None \<or> ci_selectedColor item = selectedColor))"

definition repo_removeItemFromCart ::
  "('n::{zero,one,plus,minus,times,ord}) db \<Rightarrow> ident \<Rightarrow> string \<Rightarrow> string option \<Rightarrow> string option \<Rightarrow> ('n error + 'n cart) \<times> 'n db" where
  "repo_removeItemFromCart d userId productId selectedSize selectedColor =
     (case carts d userId of
        None \<Rightarrow> (Inl CartNotFound, d)
      | Some cart \<Rightarrow>
          (let kept = filter (\<lambda>item. \<not> removeMatches productId selectedSize selectedColor item)
                        (c_items cart)
           in if length kept = length (c_items cart)
              then (Inl ItemNotFoundWithVariations, d)
              else save_cart d (cart\<lparr>c_items := kept\<rparr>)))"

definition repo_updateItemQuantity ::
  "(string \<Rightarrow> ident option) \<Rightarrow> ('n::{zero,one,plus,minus,times,ord}) db \<Rightarrow> ident \<Rightarrow> string \<Rightarrow> 'n \<Rightarrow> string option \<Rightarrow> string option
     \<Rightarrow> ('n error + 'n cart) \<times> 'n db" where
  "repo_updateItemQuantity cast d userId productId newQuantity selectedSize selectedColor =
     (case carts d userId of
        None \<Rightarrow> (Inl CartNotFound, d)
      | Some cart \<Rightarrow>
          (case findIndex (sameLine productId selectedSize selectedColor) (c_items cart) of
             None \<Rightarrow> (Inl ItemNotFound, d)
           | Some itemIndex \<Rightarrow>
               if newQuantity \<le> 0
               then save_cart d
                      (cart\<lparr>c_items := take itemIndex (c_items cart) @
                                         drop (Suc itemIndex) (c_items cart)\<rparr>)
               else
                 (case cast productId of
                    None \<Rightarrow> (Inl CastError, d)
                  | Some castId \<Rightarrow>
                      (case products d castId of
                         None \<Rightarrow> (Inl CartProductNotFound, d)
                       | Some product \<Rightarrow>
                           if js_less (stockQuantity product) newQuantity
                           then (Inl (NotEnoughStock (p_name product) (stockQuantity product)), d)
                           else save_cart d
                                  (cart\<lparr>c_items := (c_items cart)[itemIndex :=
                                     (c_items cart ! itemIndex)\<lparr>ci_quantity :=
                                        newQuantity\<rparr>]\<rparr>)))))"

definition clearCart :: "('n::{zero,one,plus,minus,times,ord}) db \<Rightarrow> ident \<Rightarrow> ('n error + 'n cart) \<times> 'n db" where
  "clearCart d userId =
     (case carts d userId of
        None \<Rightarrow> (Inl CartNotFound, d)
      | Some cart \<Rightarrow> save_cart d (cart\<lparr>c_items := []\<rparr>))"

subsection \<open>The products and carts services\<close>

text \<open>\<open>isValid\<close> stands for the driver's ObjectId.isValid, which is not part of the
  repository. The orders service is followed on identifiers in the spelling they are
  stored under, for which the cast of the query is the identity.\<close>

definition getProductById :: "(ident \<Rightarrow> bool) \<Rightarrow> ('n::{zero,one,plus,minus,times,ord}) db \<Rightarrow> ident \<Rightarrow> 'n error + 'n product option" where
  "getProductById isValid d productId =
     (if \<not> isValid productId then Inl InvalidProductId else Inr (products d productId))"

text \<open>getOrCreateUserCart wraps every failure in one generic error.\<close>

definition getOrCreateUserCart :: "('n::{zero,one,plus,minus,times,ord}) db \<Rightarrow> ident \<Rightarrow> ('n error + 'n cart) \<times> 'n db" where
  "getOrCreateUserCart d userId =
     (case carts d userId of
        Some cart \<Rightarrow> (Inr cart, d)
      | None \<Rightarrow>
          (case createCart d userId of
             (Inl e, d1) \<Rightarrow> (Inl CartUnavailable, d1)
           | (Inr cart, d1) \<Rightarrow> (Inr cart, d1)))"

text \<open>The carts service. Its call of getProductById is written with the cast of the
  query, as the carts repository is.\<close>

definition addItemToCart ::
  "(string \<Rightarrow> bool) \<Rightarrow> (string \<Rightarrow> ident option) \<Rightarrow> ('n::{zero,one,plus,minus,times,ord}) db \<Rightarrow> ident \<Rightarrow> string \<Rightarrow> 'n
     \<Rightarrow> string option \<Rightarrow> string option \<Rightarrow> ('n error + 'n cart) \<times> 'n db" where
  "addItemToCart isValid cast d userId productId quantity selectedSize selectedColor =
     (if \<not> isValid productId then (Inl InvalidProductId, d)
      else
        (case cast productId of
           None \<Rightarrow> (Inl CastError, d)
         | Some castId \<Rightarrow>
             (case products d castId of
                None \<Rightarrow> (Inl CartProductNotFound, d)
              | Some product \<Rightarrow>
                  repo_addItemToCart cast d userId productId quantity (p_price product)
                    (p_salePrice product) selectedSize selectedColor)))"

definition removeItemFromCart ::
  "('n::{zero,one,plus,minus,times,ord}) db \<Rightarrow> ident \<Rightarrow> string \<Rightarrow> string option \<Rightarrow> string option \<Rightarrow> ('n error + 'n cart) \<times> 'n db" where
  "removeItemFromCart d userId productId selectedSize selectedColor =
     repo_removeItemFromCart d userId productId selectedSize selectedColor"

definition updateItemQuantity ::
  "(string \<Rightarrow> ident option) \<Rightarrow> ('n::{zero,one,plus,minus,times,ord}) db \<Rightarrow> ident \<Rightarrow> string \<Rightarrow> 'n \<Rightarrow> string option \<Rightarrow> string option
     \<Rightarrow> ('n error + 'n cart) \<times> 'n db" where
  "updateItemQuantity cast d userId productId newQuantity selectedSize selectedColor =
     repo_updateItemQuantity cast d userId productId newQuantity selectedSize selectedColor"

definition clearUserCart :: "('n::{zero,one,plus,minus,times,ord}) db \<Rightarrow> ident \<Rightarrow> ('n error + 'n cart) \<times> 'n db" where
  "clearUserCart d userId = clearCart d userId"

subsection \<open>The orders service\<close>

text \<open>The stock a line is checked against, the same code in createOrderFromCart and in
  createDirectOrder.\<close>

definition availableStock :: "('n::{zero,one,plus,minus,times,ord}) product \<Rightarrow> string option \<Rightarrow> string option \<Rightarrow> 'n error + 'n" where
  "availableStock product selectedSize selectedColor =
     (if truthy selectedSize \<and> p_sizes product \<noteq> [] then
        (case find (\<lambda>s. Some (size_name s) = selectedSize) (p_sizes product) of
           None \<Rightarrow> Inl (SizeNotFound selectedSize (p_name product))
         | Some sizeOption \<Rightarrow> Inr (size_stock sizeOption))
      else if truthy selectedColor \<and> p_colors product \<noteq> [] then
        (case find (\<lambda>c. Some (color_name c) = selectedColor) (p_colors product) of
           None \<Rightarrow> Inl (ColorNotFound selectedColor (p_name product))
         | Some colorOption \<Rightarrow> Inr (color_stock colorOption))
      else Inr (p_stock product))"

definition effectivePrice :: "('n::{zero,one,plus,minus,times,ord}) product \<Rightarrow> 'n" where
  "effectivePrice product =
     (case p_salePrice product of
        None \<Rightarrow> p_price product
      | Some sp \<Rightarrow> if p_onSale product \<and> sp < p_price product then sp else p_price product)"

definition snapshot :: "ident \<Rightarrow> ('n::{zero,one,plus,minus,times,ord}) product \<Rightarrow> 'n \<Rightarrow> string option \<Rightarrow> string option \<Rightarrow> 'n order_item" where
  "snapshot productId product quantity selectedSize selectedColor =
     \<lparr>oi_productId = productId, oi_name = p_name product, oi_price = p_price product,
      oi_salePrice = p_salePrice product, oi_quantity = quantity,
      oi_selectedSize = selectedSize, oi_selectedColor = selectedColor,
      oi_imageUrl = (case p_images product of [] \<Rightarrow> None | img # _ \<Rightarrow> Some img)\<rparr>"

text \<open>The loop of createOrderFromCart over the populated cart lines. A line whose
  product document is gone was populated with null, and reading its identifier throws.\<close>

fun snapshotCart ::
  "(ident \<Rightarrow> bool) \<Rightarrow> ('n::{zero,one,plus,minus,times,ord}) db \<Rightarrow> 'n cart_item list \<Rightarrow> 'n order_item list \<Rightarrow> 'n
     \<Rightarrow> 'n error + ('n order_item list \<times> 'n)" where
  "snapshotCart isValid d [] orderItems calculatedTotalAmount =
     Inr (orderItems, calculatedTotalAmount)"
| "snapshotCart isValid d (cartItem # rest) orderItems calculatedTotalAmount =
     (case products d (ci_product cartItem) of
        None \<Rightarrow> Inl TypeError
      | Some populated \<Rightarrow>
          (case getProductById isValid d (ci_product cartItem) of
             Inl e \<Rightarrow> Inl e
           | Inr None \<Rightarrow> Inl (ProductNotFound (ci_product cartItem))
           | Inr (Some product) \<Rightarrow>
               (case availableStock product (ci_selectedSize cartItem) (ci_selectedColor cartItem) of
                  Inl e \<Rightarrow> Inl e
                | Inr available \<Rightarrow>
                    if available < ci_quantity cartItem
                    then Inl (InsufficientStock (p_name product) (ci_selectedSize cartItem)
                                (ci_selectedColor cartItem) (ci_quantity cartItem) available)
                    else snapshotCart isValid d rest
                           (orderItems @ [snapshot (ci_product cartItem) product
                              (ci_quantity cartItem) (ci_selectedSize cartItem)
                              (ci_selectedColor cartItem)])
                           (calculatedTotalAmount +
                              effectivePrice product * ci_quantity cartItem))))"

definition createOrderFromCart ::
  "(ident \<Rightarrow> bool) \<Rightarrow> ident \<Rightarrow> ('n::{zero,one,plus,minus,times,ord}) db \<Rightarrow> ident \<Rightarrow> shipping_address \<Rightarrow> string
     \<Rightarrow> ('n error + 'n order) \<times> 'n db" where
  "createOrderFromCart isValid newId d userId shippingAddress paymentMethod =
     (if \<not> isValid userId then (Inl InvalidUserId, d)
      else
        (case getOrCreateUserCart d userId of
           (Inl e, d1) \<Rightarrow> (Inl e, d1)
         | (Inr cart, d1) \<Rightarrow>
             if c_items cart = [] then (Inl EmptyCart, d1)
             else
               (case snapshotCart isValid d1 (c_items cart) [] 0 of
                  Inl e \<Rightarrow> (Inl e, d1)
                | Inr (orderItems, calculatedTotalAmount) \<Rightarrow>
                    (case createOrder newId d1
                            \<lparr>od_user = userId, od_items = orderItems,
                             od_totalAmount = calculatedTotalAmount,
                             od_shippingAddress = shippingAddress,
                             od_paymentMethod = paymentMethod,
                             od_orderStatus = ''pending'',
                             od_paymentStatus = ''pending''\<rparr> of
                       (Inl e, d2) \<Rightarrow> (Inl e, d2)
                     | (Inr newOrder, d2) \<Rightarrow>
                         (case clearUserCart d2 userId of
                            (Inl e, d3) \<Rightarrow> (Inl e, d3)
                          | (Inr cleared, d3) \<Rightarrow> (Inr newOrder, d3))))))"

definition createDirectOrder ::
  "(ident \<Rightarrow> bool) \<Rightarrow> ident \<Rightarrow> ('n::{zero,one,plus,minus,times,ord}) db \<Rightarrow> ident \<Rightarrow> ident \<Rightarrow> 'n \<Rightarrow> shipping_address \<Rightarrow> string
     \<Rightarrow> string option \<Rightarrow> string option \<Rightarrow> ('n error + 'n order) \<times> 'n db" where
  "createDirectOrder isValid newId d userId productId quantity shippingAddress paymentMethod
       selectedSize selectedColor =
     (if \<not> isValid userId then (Inl InvalidUserId, d)
      else if \<not> isValid productId then (Inl InvalidProductId, d)
      else if quantity < 1 then (Inl QuantityTooSmall, d)
      else
        (case getProductById isValid d productId of
           Inl e \<Rightarrow> (Inl e, d)
         | Inr None \<Rightarrow> (Inl (ProductNotFound productId), d)
         | Inr (Some product) \<Rightarrow>
             (case availableStock product selectedSize selectedColor of
                Inl e \<Rightarrow> (Inl e, d)
              | Inr available \<Rightarrow>
                  if available < quantity
                  then (Inl (InsufficientStock (p_name product) selectedSize selectedColor
                               quantity available), d)
                  else createOrder newId d
                         \<lparr>od_user = userId,
                          od_items = [snapshot productId product quantity selectedSize
                                        selectedColor],
                          od_totalAmount = effectivePrice product * quantity,
                          od_shippingAddress = shippingAddress,
                          od_paymentMethod = paymentMethod,
                          od_orderStatus = ''pending'',
                          od_paymentStatus = ''pending''\<rparr>)))"

definition updateOrderStatus ::
  "(ident \<Rightarrow> bool) \<Rightarrow> ('n::{zero,one,plus,minus,times,ord}) db \<Rightarrow> ident \<Rightarrow> string \<Rightarrow> ('n error + 'n order) \<times> 'n db" where
  "updateOrderStatus isValid d orderId newStatus =
     (if \<not> isValid orderId then (Inl InvalidOrderId, d)
      else
        (case orders d orderId of
           None \<Rightarrow> (Inl OrderNotFound, d)
         | Some ord \<Rightarrow>
             if newStatus \<notin> set validOrderStatuses then (Inl (InvalidOrderStatus newStatus), d)
             else repo_updateOrderStatus d orderId newStatus))"

definition deleteOrder :: "(ident \<Rightarrow> bool) \<Rightarrow> ('n::{zero,one,plus,minus,times,ord}) db \<Rightarrow> ident \<Rightarrow> ('n error + 'n order) \<times> 'n db" where
  "deleteOrder isValid d orderId =
     (if \<not> isValid orderId then (Inl InvalidOrderId, d)
      else repo_deleteOrder d orderId)"

subsection \<open>Login lockout: the users repository and the users service\<close>

text \<open>Dates are milliseconds since the epoch; null is \<open>None\<close>.\<close>

record user =
  u_id :: ident
  u_email :: string
  u_password :: string
  failedLoginAttempts :: int
  lockUntil :: "int option"
  isPermanentlyLocked :: bool
  lastFailedAttemptAt :: "int option"

datatype login_error =
    InvalidCredentials
  | AccountLockedPermanently
  | AccountLockedTemporarily int
  | NowLockedPermanently
  | NowLockedTemporarily int
  | NullUser

definition MAX_LOGIN_ATTEMPTS :: int where
  "MAX_LOGIN_ATTEMPTS = 5"

definition TEMPORARY_LOCK_TIME :: int where
  "TEMPORARY_LOCK_TIME = 1 * 60 * 1000"

definition FAILED_ATTEMPT_RESET_PERIOD :: int where
  "FAILED_ATTEMPT_RESET_PERIOD = 30 * 60 * 1000"

text \<open>\<open>User.findOne({ email })\<close>: the query value passes through the setters of the
  schema path (\<open>trim\<close>, \<open>lowercase\<close>) before it is compared with the stored
  addresses.\<close>

definition castEmail :: "string \<Rightarrow> string" where
  "castEmail email = toLowerCase (trim email)"

definition getUserByEmail :: "user list \<Rightarrow> string \<Rightarrow> user option" where
  "getUserByEmail users email = find (\<lambda>u. u_email u = castEmail email) users"

text \<open>findByIdAndUpdate with \<open>new: true\<close>: the first document with the identifier is
  replaced and returned; null when there is none.\<close>

definition findByIdAndUpdate :: "user list \<Rightarrow> ident \<Rightarrow> (user \<Rightarrow> user) \<Rightarrow> user option \<times> user list" where
  "findByIdAndUpdate users userId f =
     (case findIndex (\<lambda>u. u_id u = userId) users of
        None \<Rightarrow> (None, users)
      | Some i \<Rightarrow> (Some (f (users ! i)), users[i := f (users ! i)]))"

text \<open>The update documents of the three repository functions, as functions on the
  stored user.\<close>

definition resetUpdate :: "user \<Rightarrow> user" where
  "resetUpdate u =
     u\<lparr>failedLoginAttempts := 0, lockUntil := None, isPermanentlyLocked := False,
       lastFailedAttemptAt := None\<rparr>"

definition incrementUpdate :: "int \<Rightarrow> int option \<Rightarrow> user \<Rightarrow> user" where
  "incrementUpdate now lockUntilTime u =
     (case lockUntilTime of
        None \<Rightarrow> u\<lparr>failedLoginAttempts := failedLoginAttempts u + 1,
                   lastFailedAttemptAt := Some now\<rparr>
      | Some t \<Rightarrow> u\<lparr>failedLoginAttempts := failedLoginAttempts u + 1,
                     lastFailedAttemptAt := Some now, lockUntil := Some t\<rparr>)"

definition permanentLockUpdate :: "user \<Rightarrow> user" where
  "permanentLockUpdate u =
     u\<lparr>isPermanentlyLocked := True, lockUntil := None, failedLoginAttempts := 0,
       lastFailedAttemptAt := None\<rparr>"

definition resetFailedLoginAttempts :: "user list \<Rightarrow> ident \<Rightarrow> user option \<times> user list" where
  "resetFailedLoginAttempts users userId = findByIdAndUpdate users userId resetUpdate"

definition incrementFailedLoginAttempts ::
  "int \<Rightarrow> user list \<Rightarrow> ident \<Rightarrow> int option \<Rightarrow> user option \<times> user list" where
  "incrementFailedLoginAttempts now users userId lockUntilTime =
     findByIdAndUpdate users userId (incrementUpdate now lockUntilTime)"

definition permanentlyLockUser :: "user list \<Rightarrow> ident \<Rightarrow> user option \<times> user list" where
  "permanentlyLockUser users userId = findByIdAndUpdate users userId permanentLockUpdate"

definition lockActive :: "int \<Rightarrow> user \<Rightarrow> bool" where
  "lockActive now u = (case lockUntil u of None \<Rightarrow> False | Some t \<Rightarrow> now < t)"

definition remainingLockTime :: "int \<Rightarrow> user \<Rightarrow> int" where
  "remainingLockTime now u =
     (case lockUntil u of None \<Rightarrow> 0 | Some t \<Rightarrow> - ((now - t) div (1000 * 60)))"

definition counterStale :: "int \<Rightarrow> user \<Rightarrow> bool" where
  "counterStale now u =
     (0 < failedLoginAttempts u \<and>
      (case lastFailedAttemptAt u of
         None \<Rightarrow> False
       | Some t \<Rightarrow> FAILED_ATTEMPT_RESET_PERIOD < now - t))"

definition hasLockoutState :: "user \<Rightarrow> bool" where
  "hasLockoutState u =
     (0 < failedLoginAttempts u \<or> (case lockUntil u of None \<Rightarrow> False | Some t \<Rightarrow> True) \<or>
      isPermanentlyLocked u)"

text \<open>loginUser. \<open>compare\<close> stands for bcrypt.compare, \<open>now\<close> for the clock. A successful
  login returns the user the token is issued for. The minutes left of a temporary lock
  are rounded up.\<close>

definition loginUser ::
  "(string \<Rightarrow> string \<Rightarrow> bool) \<Rightarrow> int \<Rightarrow> user list \<Rightarrow> string \<Rightarrow> string
     \<Rightarrow> (login_error + user) \<times> user list" where
  "loginUser compare now users email password =
     (case getUserByEmail users email of
        None \<Rightarrow> (Inl InvalidCredentials, users)
      | Some user0 \<Rightarrow>
          if isPermanentlyLocked user0 then (Inl AccountLockedPermanently, users)
          else if lockActive now user0
          then (Inl (AccountLockedTemporarily (remainingLockTime now user0)), users)
          else
            (case (if counterStale now user0
                   then resetFailedLoginAttempts users (u_id user0)
                   else (Some user0, users)) of
               (None, users1) \<Rightarrow> (Inl NullUser, users1)
             | (Some user1, users1) \<Rightarrow>
                 if \<not> compare password (u_password user1) then
                   (case incrementFailedLoginAttempts now users1 (u_id user1) None of
                      (None, users2) \<Rightarrow> (Inl NullUser, users2)
                    | (Some user2, users2) \<Rightarrow>
                        if MAX_LOGIN_ATTEMPTS < failedLoginAttempts user2
                        then (Inl NowLockedPermanently,
                              snd (permanentlyLockUser users2 (u_id user2)))
                        else if failedLoginAttempts user2 = MAX_LOGIN_ATTEMPTS
                        then (Inl (NowLockedTemporarily (TEMPORARY_LOCK_TIME div (1000 * 60))),
                              snd (incrementFailedLoginAttempts now users2 (u_id user2)
                                     (Some (now + TEMPORARY_LOCK_TIME))))
                        else (Inl InvalidCredentials, users2))
                 else if hasLockoutState user1 then
                   (case resetFailedLoginAttempts users1 (u_id user1) of
                      (None, users2) \<Rightarrow> (Inl NullUser, users2)
                    | (Some user2, users2) \<Rightarrow> (Inr user2, users2))
                 else (Inr user1, users1)))"

text \<open>A run of login attempts with one password at the given times; the outcome of the
  last attempt and the users after it.\<close>

fun loginRun ::
  "(string \<Rightarrow> string \<Rightarrow> bool) \<Rightarrow> int list \<Rightarrow> user list \<Rightarrow> string \<Rightarrow> string
     \<Rightarrow> (login_error + user) option \<times> user list" where
  "loginRun compare [] users email password = (None, users)"
| "loginRun compare [t] users email password =
     (Some (fst (loginUser compare t users email password)),
      snd (loginUser compare t users email password))"
| "loginRun compare (t # ts) users email password =
     loginRun compare ts (snd (loginUser compare t users email password)) email password"

subsection \<open>Sample documents\<close>

definition ex_address :: shipping_address where
  "ex_address =
     \<lparr>street = ''1 Main St'', city = ''Hanoi'', state = ''HN'', zipCode = ''10000'',
      country = ''VN''\<rparr>"

text \<open>A product that is not on sale and still carries a lower sale price.\<close>

definition ex_offsale :: "int product" where
  "ex_offsale =
     \<lparr>p_name = ''Runner'', p_price = 100, p_stock = 5, p_sizes = [], p_colors = [],
      p_onSale = False, p_salePrice = Some 80, p_images = []\<rparr>"

definition ex_db_offsale :: "int db" where
  "ex_db_offsale = \<lparr>products = [''p1'' \<mapsto> ex_offsale], orders = Map.empty, carts = Map.empty\<rparr>"

text \<open>A cart with two lines of one product (no selector, size 9) and a line of another.\<close>

definition ex_lineA :: "int cart_item" where
  "ex_lineA =
     \<lparr>ci_product = ''p1'', ci_quantity = 1, ci_price = 100, ci_salePrice = None,
      ci_selectedSize = None, ci_selectedColor = None\<rparr>"





text \<open>The product under a 24-digit identifier, in a store where a user's cart holds one
  unit of it, and the same identifier written with upper-case digits.\<close>

definition ex_hexId :: ident where
  "ex_hexId = ''5f8d0d55b54764421b7156c3''"

definition ex_upperId :: string where
  "ex_upperId = ''5F8D0D55B54764421B7156C3''"

definition ex_db_hex :: "int db" where
  "ex_db_hex =
     \<lparr>products = [ex_hexId \<mapsto> ex_offsale], orders = Map.empty,
      carts = [''u1'' \<mapsto>
        \<lparr>c_user = ''u1'',
         c_items = [\<lparr>ci_product = ex_hexId, ci_quantity = 1, ci_price = 100,
                     ci_salePrice = Some 80, ci_selectedSize = None,
                     ci_selectedColor = None\<rparr>],
         c_totalPrice = 80\<rparr>]\<rparr>"

text \<open>A product with one size and one color, and a stored order of two units of it
  whose line records size 9 and a color the product does not have.\<close>

definition ex_variant :: "int product" where
  "ex_variant =
     \<lparr>p_name = ''Boot'', p_price = 100, p_stock = 0,
      p_sizes = [\<lparr>size_name = ''9'', size_stock = 5\<rparr>],
      p_colors = [\<lparr>color_name = ''red'', color_stock = 3\<rparr>],
      p_onSale = False, p_salePrice = None, p_images = []\<rparr>"

definition ex_item :: "int order_item" where
  "ex_item =
     \<lparr>oi_productId = ''p1'', oi_name = ''Boot'', oi_price = 100, oi_salePrice = None,
      oi_quantity = 2, oi_selectedSize = Some ''9'', oi_selectedColor = Some ''blue'',
      oi_imageUrl = None\<rparr>"

definition ex_order :: "int order" where
  "ex_order =
     \<lparr>o_id = ''o1'', o_user = ''u1'', o_items = [ex_item], o_totalAmount = 200,
      o_shippingAddress = ex_address, o_paymentMethod = ''paypal'',
      o_paymentStatus = ''pending'', o_orderStatus = ''pending''\<rparr>"

definition ex_db_order :: "int db" where
  "ex_db_order =
     \<lparr>products = [''p1'' \<mapsto> ex_variant], orders = [''o1'' \<mapsto> ex_order], carts = Map.empty\<rparr>"

text \<open>The same store with the line of the order recording size 10, which the product
  does not have.\<close>

definition ex_db_unmatched :: "int db" where
  "ex_db_unmatched =
     \<lparr>products = [''p1'' \<mapsto> ex_variant],
      orders = [''o1'' \<mapsto> ex_order\<lparr>o_items := [ex_item\<lparr>oi_selectedSize := Some ''10''\<rparr>]\<rparr>],
      carts = Map.empty\<rparr>"






subsection \<open>Auxiliary notions for the properties\<close>

text \<open>Adding an amount to the stock of the first size (color) whose name is the
  selector: what the decrement and the reversal of a line do to a variant list.\<close>

fun addSizeStock :: "string option \<Rightarrow> ('n::{zero,one,plus,minus,times,ord}) \<Rightarrow> 'n size_option list \<Rightarrow> 'n size_option list" where
  "addSizeStock sel n [] = []"
| "addSizeStock sel n (s # ss) =
     (if Some (size_name s) = sel then s\<lparr>size_stock := size_stock s + n\<rparr> # ss
      else s # addSizeStock sel n ss)"

fun addColorStock :: "string option \<Rightarrow> ('n::{zero,one,plus,minus,times,ord}) \<Rightarrow> 'n color_option list \<Rightarrow> 'n color_option list" where
  "addColorStock sel n [] = []"
| "addColorStock sel n (c # cs) =
     (if Some (color_name c) = sel then c\<lparr>color_stock := color_stock c + n\<rparr> # cs
      else c # addColorStock sel n cs)"

text \<open>The product schema requires and trims the names of sizes and colors.\<close>

definition nameValid :: "string \<Rightarrow> bool" where
  "nameValid n = (n \<noteq> [] \<and> trim n = n)"

definition variantNamesValid :: "('n::{zero,one,plus,minus,times,ord}) product \<Rightarrow> bool" where
  "variantNamesValid p =
     (list_all nameValid (map size_name (p_sizes p)) \<and>
      list_all nameValid (map color_name (p_colors p)))"

text \<open>Three units of size 9 of the sample product, whose size 9 has five in stock.\<close>

definition ex_orderData :: "int order_data" where
  "ex_orderData =
     \<lparr>od_user = ''u1'',
      od_items = [\<lparr>oi_productId = ''p1'', oi_name = ''Boot'', oi_price = 100,
                   oi_salePrice = None, oi_quantity = 3, oi_selectedSize = Some ''9'',
                   oi_selectedColor = None, oi_imageUrl = None\<rparr>],
      od_totalAmount = 300, od_shippingAddress = ex_address, od_paymentMethod = ''paypal'',
      od_orderStatus = ''pending'', od_paymentStatus = ''pending''\<rparr>"

definition ex_db_variant :: "int db" where
  "ex_db_variant =
     \<lparr>products = [''p1'' \<mapsto> ex_variant], orders = Map.empty, carts = Map.empty\<rparr>"

text \<open>A cart line whose product and variant resolve and whose quantity exceeds
  (respectively is covered by) the stock resolved for it.\<close>

definition lineExceeds :: "('n::{zero,one,plus,minus,times,ord}) db \<Rightarrow> 'n cart_item \<Rightarrow> bool" where
  "lineExceeds d line =
     (case products d (ci_product line) of
        None \<Rightarrow> False
      | Some p \<Rightarrow>
          (case availableStock p (ci_selectedSize line) (ci_selectedColor line) of
             Inl e \<Rightarrow> False
           | Inr available \<Rightarrow> available < ci_quantity line))"

definition linePasses :: "('n::{zero,one,plus,minus,times,ord}) db \<Rightarrow> 'n cart_item \<Rightarrow> bool" where
  "linePasses d line =
     (case products d (ci_product line) of
        None \<Rightarrow> False
      | Some p \<Rightarrow>
          (case availableStock p (ci_selectedSize line) (ci_selectedColor line) of
             Inl e \<Rightarrow> False
           | Inr available \<Rightarrow> ci_quantity line \<le> available))"

text \<open>A shop with two products and two carts: the first cart has a line with a size the
  product lacks followed by a line asking for 9 of a product with 5 in stock; the second
  has a line that passes followed by the same excessive line.\<close>

definition ex_lineOk :: "int cart_item" where
  "ex_lineOk =
     \<lparr>ci_product = ''p1'', ci_quantity = 1, ci_price = 100, ci_salePrice = None,
      ci_selectedSize = Some ''9'', ci_selectedColor = None\<rparr>"

definition ex_lineNoSize :: "int cart_item" where
  "ex_lineNoSize =
     \<lparr>ci_product = ''p1'', ci_quantity = 1, ci_price = 100, ci_salePrice = None,
      ci_selectedSize = Some ''10'', ci_selectedColor = None\<rparr>"

definition ex_lineOver :: "int cart_item" where
  "ex_lineOver =
     \<lparr>ci_product = ''p2'', ci_quantity = 9, ci_price = 100, ci_salePrice = Some 80,
      ci_selectedSize = None, ci_selectedColor = None\<rparr>"

definition ex_db_shop :: "int db" where
  "ex_db_shop =
     \<lparr>products = [''p1'' \<mapsto> ex_variant, ''p2'' \<mapsto> ex_offsale],
      orders = Map.empty,
      carts = [''u1'' \<mapsto> \<lparr>c_user = ''u1'', c_items = [ex_lineNoSize, ex_lineOver], c_totalPrice = 820\<rparr>,
               ''u2'' \<mapsto> \<lparr>c_user = ''u2'', c_items = [ex_lineOk, ex_lineOver], c_totalPrice = 820\<rparr>]\<rparr>"

text \<open>The sample product with ten units of top-level stock, and a cart with one line
  of it that selects neither a size nor a color.\<close>

definition ex_db_stocked :: "int db" where
  "ex_db_stocked =
     \<lparr>products = [''p1'' \<mapsto> ex_variant\<lparr>p_stock := 10\<rparr>], orders = Map.empty,
      carts = [''u1'' \<mapsto> \<lparr>c_user = ''u1'', c_items = [ex_lineA], c_totalPrice = 100\<rparr>]\<rparr>"

text \<open>One login attempt and a run of attempts as functions of the stored user alone:
  what loginUser does to the account it finds.\<close>

definition loginStep ::
  "(string \<Rightarrow> string \<Rightarrow> bool) \<Rightarrow> int \<Rightarrow> string \<Rightarrow> user \<Rightarrow> (login_error + user) \<times> user" where
  "loginStep compare now password user0 =
     (if isPermanentlyLocked user0 then (Inl AccountLockedPermanently, user0)
      else if lockActive now user0
      then (Inl (AccountLockedTemporarily (remainingLockTime now user0)), user0)
      else
        (let user1 = (if counterStale now user0 then resetUpdate user0 else user0) in
         if \<not> compare password (u_password user1) then
           (let user2 = incrementUpdate now None user1 in
            if MAX_LOGIN_ATTEMPTS < failedLoginAttempts user2
            then (Inl NowLockedPermanently, permanentLockUpdate user2)
            else if failedLoginAttempts user2 = MAX_LOGIN_ATTEMPTS
            then (Inl (NowLockedTemporarily (TEMPORARY_LOCK_TIME div (1000 * 60))),
                  incrementUpdate now (Some (now + TEMPORARY_LOCK_TIME)) user2)
            else (Inl InvalidCredentials, user2))
         else if hasLockoutState user1 then (Inr (resetUpdate user1), resetUpdate user1)
         else (Inr user1, user1)))"

fun stepRun ::
  "(string \<Rightarrow> string \<Rightarrow> bool) \<Rightarrow> int list \<Rightarrow> string \<Rightarrow> user \<Rightarrow> (login_error + user) option \<times> user" where
  "stepRun compare [] password u = (None, u)"
| "stepRun compare [t] password u =
     (Some (fst (loginStep compare t password u)), snd (loginStep compare t password u))"
| "stepRun compare (t # ts) password u =
     stepRun compare ts password (snd (loginStep compare t password u))"

text \<open>The account of an email address sits at position \<open>i\<close>: it is the first user
  stored under the address (as the query casts it) and the first with its identifier.\<close>

definition accountAt :: "user list \<Rightarrow> string \<Rightarrow> nat \<Rightarrow> user \<Rightarrow> bool" where
  "accountAt users email i u =
     (i < length users \<and> users ! i = u \<and> u_email u = castEmail email \<and>
      list_all (\<lambda>v. u_email v \<noteq> castEmail email) (take i users) \<and>
      findIndex (\<lambda>v. u_id v = u_id u) users = Some i)"

text \<open>A fresh account, and the same account after five failed attempts, the last at
  time 4000.\<close>

definition ex_locked :: user where
  "ex_locked =
     \<lparr>u_id = ''u1'', u_email = ''a@b.c'', u_password = ''secret'', failedLoginAttempts = 6,
      lockUntil = Some 64000, isPermanentlyLocked = False, lastFailedAttemptAt = Some 4000\<rparr>"

definition ex_user :: user where
  "ex_user =
     \<lparr>u_id = ''u1'', u_email = ''a@b.c'', u_password = ''secret'', failedLoginAttempts = 0,
      lockUntil = None, isPermanentlyLocked = False, lastFailedAttemptAt = None\<rparr>"

section \<open>Properties\<close>

subsection \<open>Evaluation helpers\<close>

lemmas order_eval =
  createDirectOrder_def createOrderFromCart_def getProductById_def availableStock_def
  truthy_def createOrder_def save_order_def new_Order_def new_OrderItem_def new_Address_def
  validate_order_def validate_item_def validate_address_def trim_def is_space_def
  validPaymentMethods_def validPaymentStatuses_def validOrderStatuses_def order_pre_save_def
  item_effectivePrice_def decrementItem_def snapshot_def effectivePrice_def

subsection \<open>Order totals\<close>

text \<open>
  C3. The total computed by the service when it builds the order and the total stored
  by the pre-save hook of the order model are meant to agree. They do not for a product
  that is not on sale and has a sale price below its price: for one unit of such a
  product (price 100, sale price 80, not on sale) the service computes 100, and the
  order that is stored carries the hook's total, 80.
\<close>

theorem order_total_service_hook_differ:
  "effectivePrice ex_offsale * 1 = 100 \<and>
   map_sum id o_totalAmount
     (fst (createDirectOrder (\<lambda>i. True) ''o1'' ex_db_offsale ''u1'' ''p1'' 1 ex_address
             ''paypal'' None None)) = Inr 80"
  by (simp add: order_eval ex_db_offsale_def ex_offsale_def ex_address_def)

subsection \<open>Cart\<close>

lemmas cart_eval =
  repo_addItemToCart_def addItemToCart_def createCart_def save_cart_def validate_cart_def
  cart_pre_save_def cart_item_effectivePrice_def stockQuantity_def js_less_def sameLine_def
  getProductById_def repo_removeItemFromCart_def removeMatches_def repo_updateItemQuantity_def
  clearCart_def Let_def


lemma findIndex_Some:
  "findIndex P xs = Some i \<Longrightarrow> i < length xs \<and> P (xs ! i) \<and> (\<forall>j<i. \<not> P (xs ! j))"
proof (induction xs arbitrary: i)
  case Nil
  then show ?case by simp
next
  case (Cons x xs)
  show ?case
  proof (cases "P x")
    case True
    with Cons.prems show ?thesis by simp
  next
    case False
    with Cons.prems obtain k where k: "findIndex P xs = Some k" "i = Suc k" by auto
    from Cons.IH[OF k(1)] False k(2) show ?thesis
      by (auto simp: less_Suc_eq_0_disj)
  qed
qed

lemma findIndex_None: "findIndex P xs = None \<longleftrightarrow> \<not> list_ex P xs"
  by (induction xs) auto


text \<open>
  C7. Adding to the cart is meant to fail with a not-enough-stock error when the line's
  quantity exceeds the product's top-level stock. The repository compares against
  \<open>product.stockQuantity\<close>, a path the product schema does not have, so the comparison
  is never true: 9 units of a product whose stock is 5 are added without an error.
\<close>

theorem cart_add_never_checks_stock:
  "p_stock ex_offsale = 5 \<and>
   map_sum id (map ci_quantity \<circ> c_items)
     (fst (addItemToCart (\<lambda>i. True) Some ex_db_offsale ''u1'' ''p1'' 9 None None)) = Inr [9]"
  by (simp add: cart_eval ex_db_offsale_def ex_offsale_def)

text \<open>
  C8. The cart total is meant to use the sale price only for a product that is on sale.
  The cart line stores the sale price the service passes and the hook uses it whenever
  it is below the price: two units of a product with price 100, sale price 80 and the
  on-sale flag off give a stored total of 160, where the effective price rule gives 200.
\<close>

theorem cart_total_uses_offsale_price:
  "effectivePrice ex_offsale * 2 = 200 \<and>
   map_sum id c_totalPrice
     (fst (addItemToCart (\<lambda>i. True) Some ex_db_offsale ''u1'' ''p1'' 2 None None)) = Inr 160"
  by (simp add: cart_eval ex_db_offsale_def ex_offsale_def effectivePrice_def)




text \<open>
  A product string that spells the identifier with upper-case digits is found by the
  query and equals no printed identifier: adding one unit of the product that the cart
  already holds, with the same (undefined) size and color, appends a second line of it.
\<close>

lemma cart_add_other_spelling:
  "castObjectId ex_upperId = Some ex_hexId \<and>
   map_sum id (map (\<lambda>item. (ci_product item, ci_quantity item)) \<circ> c_items)
     (fst (addItemToCart (\<lambda>i. True) castObjectId ex_db_hex ''u1'' ex_upperId 1 None None)) =
     Inr [(ex_hexId, 1), (ex_hexId, 1)]"
  by (simp add: cart_eval ex_db_hex_def ex_hexId_def ex_upperId_def ex_offsale_def
        castObjectId_def isHexDigit_def toLowerCase_def lower_char_def)

subsection \<open>Status changes and stock reversal\<close>

lemmas ex_order_defs = ex_variant_def ex_item_def ex_order_def ex_db_order_def ex_address_def

lemmas status_eval =
  updateOrderStatus_def repo_updateOrderStatus_def deleteOrder_def repo_deleteOrder_def
  save_order_def validate_order_def validate_item_def validate_address_def
  validPaymentMethods_def validPaymentStatuses_def validOrderStatuses_def order_pre_save_def
  item_effectivePrice_def revertItem_def truthy_def Let_def

lemma repo_updateOrderStatus_upd:
  "orders d orderId = Some ord \<Longrightarrow>
   repo_updateOrderStatus d orderId newStatus =
     (if validate_order (ord\<lparr>o_orderStatus := newStatus\<rparr>)
      then (Inr (order_pre_save (ord\<lparr>o_orderStatus := newStatus\<rparr>)),
            d\<lparr>orders := (orders d)(orderId \<mapsto> order_pre_save (ord\<lparr>o_orderStatus := newStatus\<rparr>)),
              products :=
                (if newStatus = ''cancelled'' \<and> o_orderStatus ord \<noteq> ''cancelled''
                 then revertStock (o_items ord) (products d)
                 else products d)\<rparr>)
      else (Inl ValidationError, d))"
  by (simp add: repo_updateOrderStatus_def save_order_def Let_def order_pre_save_def)

text \<open>
  C10, as stated, fails for the color half: a line that records size 9 and a color the
  product does not have is reverted through its size. The product has colors, none of
  them matches the line, and deleting or cancelling the order still raises the stock of
  size 9 from 5 to 7.
\<close>

theorem revert_color_mismatch_counterexample:
  "p_colors ex_variant \<noteq> [] \<and>
   findIndex (\<lambda>c. Some (color_name c) = oi_selectedColor ex_item) (p_colors ex_variant) = None \<and>
   products (snd (repo_deleteOrder ex_db_order ''o1'')) ''p1'' =
     Some (ex_variant\<lparr>p_sizes := [\<lparr>size_name = ''9'', size_stock = 7\<rparr>]\<rparr>) \<and>
   products (snd (repo_updateOrderStatus ex_db_order ''o1'' ''cancelled'')) ''p1'' =
     Some (ex_variant\<lparr>p_sizes := [\<lparr>size_name = ''9'', size_stock = 7\<rparr>]\<rparr>)"
  by (simp add: status_eval ex_order_defs)

text \<open>
  C10, amended. When the product of a line still exists, and either the line records a
  non-empty size, the product has sizes and none of them matches, or the size branch does
  not apply (the product has no sizes or the line records no size), the line records a
  non-empty color, the product has colors and none of them matches, then the reversal of
  that line changes no stock field of the product (the top-level stock included) and the
  loop goes on with the next line. Deleting a stored order never fails, and cancelling
  one fails only if the stored document does not validate.
\<close>

theorem revert_skips_unmatched:
  assumes "ps (oi_productId item) = Some p"
    and "(p_sizes p \<noteq> [] \<and> truthy (oi_selectedSize item) \<and>
          findIndex (\<lambda>s. Some (size_name s) = oi_selectedSize item) (p_sizes p) = None) \<or>
         ((p_sizes p = [] \<or> \<not> truthy (oi_selectedSize item)) \<and>
          p_colors p \<noteq> [] \<and> truthy (oi_selectedColor item) \<and>
          findIndex (\<lambda>c. Some (color_name c) = oi_selectedColor item) (p_colors p) = None)"
  shows "revertItem item p = p \<and>
         revertStock (item # rest) ps = revertStock rest ps \<and>
         (orders d orderId = Some ord \<longrightarrow> fst (repo_deleteOrder d orderId) = Inr ord) \<and>
         (orders d orderId = Some ord \<and> validate_order (ord\<lparr>o_orderStatus := ''cancelled''\<rparr>) \<longrightarrow>
            fst (repo_updateOrderStatus d orderId ''cancelled'') =
              Inr (order_pre_save (ord\<lparr>o_orderStatus := ''cancelled''\<rparr>)))"
proof -
  have r: "revertItem item p = p"
    using assms(2) by (auto simp: revertItem_def)
  have "ps(oi_productId item \<mapsto> p) = ps"
    using assms(1) by (simp add: map_upd_triv)
  with r assms(1) have "revertStock (item # rest) ps = revertStock rest ps"
    by simp
  with r show ?thesis
    by (simp add: repo_deleteOrder_def repo_updateOrderStatus_upd)
qed

text \<open>The sample line with size 10 recorded instead: the product has sizes, none is
  10, and the product comes back unchanged.\<close>

theorem revert_skips_unmatched_witness:
  "revertItem (ex_item\<lparr>oi_selectedSize := Some ''10''\<rparr>) ex_variant = ex_variant \<and>
   fst (repo_deleteOrder ex_db_order ''o1'') = Inr ex_order \<and>
   fst (repo_updateOrderStatus ex_db_order ''o1'' ''cancelled'') =
     Inr (order_pre_save (ex_order\<lparr>o_orderStatus := ''cancelled''\<rparr>)) \<and>
   truthy (Some ''10'') \<and> p_sizes ex_variant \<noteq> [] \<and>
   findIndex (\<lambda>s. Some (size_name s) = Some ''10'') (p_sizes ex_variant) = None"
  using revert_skips_unmatched [where ps = "products ex_db_order"
      and item = "ex_item\<lparr>oi_selectedSize := Some ''10''\<rparr>" and p = ex_variant
      and d = ex_db_order and orderId = "''o1''" and ord = ex_order and rest = "[]"]
  by (simp add: status_eval ex_order_defs)

subsection \<open>Stock restoration\<close>

lemma addSizeStock_names: "map size_name (addSizeStock sel n xs) = map size_name xs"
  by (induction xs) auto

lemma addColorStock_names: "map color_name (addColorStock sel n xs) = map color_name xs"
  by (induction xs) auto

lemma addSizeStock_index:
  "addSizeStock sel n xs =
     (case findIndex (\<lambda>s. Some (size_name s) = sel) xs of
        None \<Rightarrow> xs
      | Some i \<Rightarrow> xs[i := (xs ! i)\<lparr>size_stock := size_stock (xs ! i) + n\<rparr>])"
  by (induction xs) (auto split: option.splits)

lemma addColorStock_index:
  "addColorStock sel n xs =
     (case findIndex (\<lambda>c. Some (color_name c) = sel) xs of
        None \<Rightarrow> xs
      | Some i \<Rightarrow> xs[i := (xs ! i)\<lparr>color_stock := color_stock (xs ! i) + n\<rparr>])"
  by (induction xs) (auto split: option.splits)

lemma addSizeStock_Nil [simp]: "addSizeStock sel n xs = [] \<longleftrightarrow> xs = []"
  by (cases xs) auto

lemma addColorStock_Nil [simp]: "addColorStock sel n xs = [] \<longleftrightarrow> xs = []"
  by (cases xs) auto

lemma addSizeStock_commute:
  fixes xs :: "int size_option list"
  shows "addSizeStock a n (addSizeStock b m xs) = addSizeStock b m (addSizeStock a n xs)"
  by (induction xs) auto

lemma addColorStock_commute:
  fixes xs :: "int color_option list"
  shows "addColorStock a n (addColorStock b m xs) = addColorStock b m (addColorStock a n xs)"
  by (induction xs) auto

lemma addSizeStock_inverse:
  fixes xs :: "int size_option list"
  shows "addSizeStock a n (addSizeStock a (- n) xs) = xs"
  by (induction xs) auto

lemma addColorStock_inverse:
  fixes xs :: "int color_option list"
  shows "addColorStock a n (addColorStock a (- n) xs) = xs"
  by (induction xs) auto

lemma revertItem_add:
  "revertItem item p =
     (if p_sizes p \<noteq> [] \<and> truthy (oi_selectedSize item)
      then p\<lparr>p_sizes := addSizeStock (oi_selectedSize item) (oi_quantity item) (p_sizes p)\<rparr>
      else if p_colors p \<noteq> [] \<and> truthy (oi_selectedColor item)
      then p\<lparr>p_colors := addColorStock (oi_selectedColor item) (oi_quantity item) (p_colors p)\<rparr>
      else p\<lparr>p_stock := p_stock p + oi_quantity item\<rparr>)"
  by (simp add: revertItem_def addSizeStock_index addColorStock_index split: option.splits)

lemma revertItem_commute:
  fixes p :: "int product"
  shows "revertItem a (revertItem b p) = revertItem b (revertItem a p)"
  by (simp add: revertItem_add addSizeStock_commute addColorStock_commute)

lemma findIndex_truthy_size:
  "list_all nameValid (map size_name xs) \<Longrightarrow>
   findIndex (\<lambda>s. Some (size_name s) = sel) xs = Some i \<Longrightarrow> truthy sel"
  by (auto dest!: findIndex_Some simp: list_all_length truthy_def nameValid_def)

lemma findIndex_truthy_color:
  "list_all nameValid (map color_name xs) \<Longrightarrow>
   findIndex (\<lambda>c. Some (color_name c) = sel) xs = Some i \<Longrightarrow> truthy sel"
  by (auto dest!: findIndex_Some simp: list_all_length truthy_def nameValid_def)

lemma decrementItem_add:
  fixes p :: "int product"
  assumes "decrementItem item p = Inr p'"
  shows "p' =
     (if p_sizes p \<noteq> []
      then p\<lparr>p_sizes := addSizeStock (oi_selectedSize item) (- oi_quantity item) (p_sizes p)\<rparr>
      else if p_colors p \<noteq> []
      then p\<lparr>p_colors := addColorStock (oi_selectedColor item) (- oi_quantity item) (p_colors p)\<rparr>
      else p\<lparr>p_stock := p_stock p - oi_quantity item\<rparr>)"
  using assms
  by (auto simp: decrementItem_def addSizeStock_index addColorStock_index
      split: option.splits if_splits)

lemma decrementItem_truthy:
  assumes "decrementItem item p = Inr p'" "variantNamesValid p"
  shows "(p_sizes p \<noteq> [] \<longrightarrow> truthy (oi_selectedSize item)) \<and>
         (p_sizes p = [] \<and> p_colors p \<noteq> [] \<longrightarrow> truthy (oi_selectedColor item))"
  using assms
  by (auto simp: decrementItem_def variantNamesValid_def
      split: option.splits if_splits dest: findIndex_truthy_size findIndex_truthy_color)

lemma revert_decrement:
  fixes p :: "int product"
  assumes "decrementItem item p = Inr p'" "variantNamesValid p"
  shows "revertItem item p' = p"
  using decrementItem_truthy[OF assms] decrementItem_add[OF assms(1)]
  by (auto simp: revertItem_add addSizeStock_inverse addColorStock_inverse)

lemma revertStock_commute:
  fixes q :: "int product"
  shows "ps (oi_productId a) = Some q \<Longrightarrow>
   \<exists>q'. revertStock items ps (oi_productId a) = Some q' \<and>
        revertStock items (ps(oi_productId a \<mapsto> revertItem a q)) =
          (revertStock items ps)(oi_productId a \<mapsto> revertItem a q')"
proof (induction items arbitrary: ps q)
  case Nil
  then show ?case by simp
next
  case (Cons i items)
  let ?k = "oi_productId a"
  show ?case
  proof (cases "oi_productId i = ?k")
    case True
    let ?ps1 = "ps(?k \<mapsto> revertItem i q)"
    have e1: "revertStock (i # items) ps = revertStock items ?ps1"
      using True Cons.prems by simp
    have e2: "revertStock (i # items) (ps(?k \<mapsto> revertItem a q)) =
                revertStock items (?ps1(?k \<mapsto> revertItem a (revertItem i q)))"
      using True by (simp add: revertItem_commute[of i a])
    have "?ps1 ?k = Some (revertItem i q)" by simp
    with Cons.IH[of ?ps1 "revertItem i q"] show ?thesis
      unfolding e1 e2 by blast
  next
    case False
    show ?thesis
    proof (cases "ps (oi_productId i)")
      case None
      with False Cons.IH[of ps q] Cons.prems show ?thesis by simp
    next
      case (Some r)
      let ?ps1 = "ps(oi_productId i \<mapsto> revertItem i r)"
      have e1: "revertStock (i # items) ps = revertStock items ?ps1"
        using Some by simp
      have e2: "revertStock (i # items) (ps(?k \<mapsto> revertItem a q)) =
                  revertStock items (?ps1(?k \<mapsto> revertItem a q))"
        using False Some by (simp add: fun_upd_twist[of ?k "oi_productId i"])
      have "?ps1 ?k = Some q" using False Cons.prems by simp
      with Cons.IH[of ?ps1 q] show ?thesis
        unfolding e1 e2 by blast
    qed
  qed
qed

lemma revertStock_dom: "revertStock items ps pid = None \<longleftrightarrow> ps pid = None"
  by (induction items arbitrary: ps) (auto split: option.splits)

lemma validNames_decrement:
  fixes p :: "int product"
  shows "decrementItem item p = Inr p' \<Longrightarrow> variantNamesValid p \<Longrightarrow> variantNamesValid p'"
  by (auto simp: variantNamesValid_def addSizeStock_names addColorStock_names
      dest!: decrementItem_add split: if_splits)

lemma revert_decrementStock:
  fixes ps :: "ident \<rightharpoonup> int product"
  shows "decrementStock items ps = Inr ps' \<Longrightarrow>
   (\<forall>pid p. ps pid = Some p \<longrightarrow> variantNamesValid p) \<Longrightarrow>
   revertStock items ps' = ps"
proof (induction items arbitrary: ps)
  case Nil
  then show ?case by simp
next
  case (Cons i items)
  from Cons.prems(1) obtain p p1 where
    p: "ps (oi_productId i) = Some p" and
    d: "decrementItem i p = Inr p1" and
    rest: "decrementStock items (ps(oi_productId i \<mapsto> p1)) = Inr ps'"
    by (auto split: option.splits sum.splits)
  have valid1: "\<forall>pid q. (ps(oi_productId i \<mapsto> p1)) pid = Some q \<longrightarrow> variantNamesValid q"
    using Cons.prems(2) p validNames_decrement[OF d] by auto
  have ih: "revertStock items ps' = ps(oi_productId i \<mapsto> p1)"
    by (rule Cons.IH[OF rest valid1])
  then obtain p2 where p2: "ps' (oi_productId i) = Some p2"
    using revertStock_dom[of items ps' "oi_productId i"] by auto
  from revertStock_commute[of ps' i p2 items] p2 ih
  have "revertStock items (ps'(oi_productId i \<mapsto> revertItem i p2)) =
          (ps(oi_productId i \<mapsto> p1))(oi_productId i \<mapsto> revertItem i p1)"
    by auto
  also have "\<dots> = ps"
    using revert_decrement[OF d] Cons.prems(2) p by (auto simp: map_upd_triv)
  finally show ?case using p2 by simp
qed



lemma createOrder_success:
  assumes "fst (createOrder newId d orderData) = Inr ord"
  shows "validate_order (new_Order newId orderData) \<and>
         ord = order_pre_save (new_Order newId orderData) \<and>
         (\<exists>ps. decrementStock (o_items ord) (products d) = Inr ps \<and>
               snd (createOrder newId d orderData) =
                 d\<lparr>products := ps, orders := (orders d)(newId \<mapsto> ord)\<rparr>)"
  using assms
  by (auto simp: createOrder_def save_order_def split: if_splits sum.splits)


lemma revertStock_local:
  "ps pid = qs pid \<Longrightarrow> revertStock items ps pid = revertStock items qs pid"
proof (induction items arbitrary: ps qs)
  case Nil
  then show ?case by simp
next
  case (Cons i items)
  show ?case
  proof (cases "oi_productId i = pid")
    case True
    show ?thesis
    proof (cases "ps pid")
      case None
      with True Cons.prems Cons.IH[of ps qs] show ?thesis by simp
    next
      case (Some p)
      have e: "(ps(pid \<mapsto> revertItem i p)) pid = (qs(pid \<mapsto> revertItem i p)) pid"
        by simp
      have "revertStock items (ps(pid \<mapsto> revertItem i p)) pid =
            revertStock items (qs(pid \<mapsto> revertItem i p)) pid"
        by (rule Cons.IH[of "ps(pid \<mapsto> revertItem i p)" "qs(pid \<mapsto> revertItem i p)", OF e])
      with True Some Cons.prems show ?thesis by simp
    qed
  next
    case False
    have step: "revertStock (i # items) r pid = revertStock items r pid" for r
    proof (cases "r (oi_productId i)")
      case None
      then show ?thesis by simp
    next
      case (Some p)
      have e: "(r(oi_productId i \<mapsto> revertItem i p)) pid = r pid"
        using False by simp
      have "revertStock items (r(oi_productId i \<mapsto> revertItem i p)) pid =
            revertStock items r pid"
        by (rule Cons.IH[of "r(oi_productId i \<mapsto> revertItem i p)" r, OF e])
      with Some show ?thesis by simp
    qed
    show ?thesis
      unfolding step by (rule Cons.IH[of ps qs, OF Cons.prems])
  qed
qed

lemma revertStock_other:
  "pid \<notin> oi_productId ` set items \<Longrightarrow> revertStock items ps pid = ps pid"
  by (induction items arbitrary: ps) (auto split: option.splits)

lemma decrementStock_other:
  "decrementStock items ps = Inr qs \<Longrightarrow> pid \<notin> oi_productId ` set items \<Longrightarrow> qs pid = ps pid"
proof (induction items arbitrary: ps)
  case Nil
  then show ?case by simp
next
  case (Cons i items)
  from Cons.prems(1) obtain p p1 where
    p: "ps (oi_productId i) = Some p" and
    rest: "decrementStock items (ps(oi_productId i \<mapsto> p1)) = Inr qs"
    by (auto split: option.splits sum.splits)
  from Cons.IH[OF rest] Cons.prems(2) show ?case by simp
qed

lemma revert_restores_referenced:
  fixes ps :: "ident \<rightharpoonup> int product"
  assumes dec: "decrementStock items ps = Inr qs"
    and valid: "\<forall>pid p. ps pid = Some p \<longrightarrow> variantNamesValid p"
    and same: "\<forall>item\<in>set items. later (oi_productId item) = qs (oi_productId item)"
    and ref: "item \<in> set items"
  shows "revertStock items later (oi_productId item) = ps (oi_productId item)"
proof -
  from same ref have "later (oi_productId item) = qs (oi_productId item)" by blast
  then have "revertStock items later (oi_productId item) = revertStock items qs (oi_productId item)"
    by (rule revertStock_local)
  also have "revertStock items qs = ps"
    by (rule revert_decrementStock[OF dec valid])
  finally show ?thesis .
qed




subsection \<open>Status changes\<close>

lemma revertStock_fold:
  "revertStock items ps pid =
     map_option (fold revertItem (filter (\<lambda>item. oi_productId item = pid) items)) (ps pid)"
proof (induction items arbitrary: ps)
  case Nil
  then show ?case by (simp add: option.map_ident)
next
  case (Cons i items)
  show ?case
  proof (cases "ps (oi_productId i)")
    case None
    then show ?thesis
      using Cons.IH[of ps] by (cases "oi_productId i = pid") auto
  next
    case (Some p)
    have ih: "revertStock items (ps(oi_productId i \<mapsto> revertItem i p)) pid =
        map_option (fold revertItem (filter (\<lambda>item. oi_productId item = pid) items))
          ((ps(oi_productId i \<mapsto> revertItem i p)) pid)"
      by (rule Cons.IH)
    show ?thesis
    proof (cases "oi_productId i = pid")
      case True
      have "revertStock (i # items) ps pid =
              revertStock items (ps(oi_productId i \<mapsto> revertItem i p)) pid"
        using Some by simp
      also note ih
      also have "(ps(oi_productId i \<mapsto> revertItem i p)) pid = Some (revertItem i p)"
        using True by simp
      finally show ?thesis using True Some by simp
    next
      case False
      have "revertStock (i # items) ps pid =
              revertStock items (ps(oi_productId i \<mapsto> revertItem i p)) pid"
        using Some by simp
      also note ih
      also have "(ps(oi_productId i \<mapsto> revertItem i p)) pid = ps pid"
        using False by simp
      finally show ?thesis using False by simp
    qed
  qed
qed

text \<open>
  C5, as stated, fails in the stock it promises to increment: the stored order has one
  line of two units that records size 10, the product has the single size 9, and the
  change from pending to cancelled is accepted and stored while no stock field of the
  product changes.
\<close>

theorem cancel_unmatched_counterexample:
  "map_option o_orderStatus (orders ex_db_unmatched ''o1'') = Some ''pending'' \<and>
   map_sum id o_orderStatus
     (fst (updateOrderStatus (\<lambda>i. True) ex_db_unmatched ''o1'' ''cancelled'')) =
     Inr ''cancelled'' \<and>
   map_option o_orderStatus
     (orders (snd (updateOrderStatus (\<lambda>i. True) ex_db_unmatched ''o1'' ''cancelled'')) ''o1'') =
     Some ''cancelled'' \<and>
   products (snd (updateOrderStatus (\<lambda>i. True) ex_db_unmatched ''o1'' ''cancelled'')) =
     products ex_db_unmatched"
  by (simp add: status_eval ex_db_unmatched_def ex_order_defs)

text \<open>
  C5, amended. updateOrderStatus answers a status outside the six allowed values with an
  error and the store it was given, and any error leaves the store as it was (the status
  write and the stock writes commit together or not at all). An accepted change stores
  the order with the new status and touches no other order and no cart. When the new
  status is cancelled and the previous one was not, every product is the result of
  applying, in the order of the lines, the reversal of each line that refers to it:
  the quantity is added to the first size named by the line when the product has sizes
  and the line records a size, else to the first color named by the line when the
  product has colors and the line records a color, else to the top-level stock; a named
  size or color that the product lacks adds nothing, and a product no line refers to is
  unchanged. For an order that createOrder placed, with integer quantities and stock
  counts and variant names as the schema requires, and whose products are as the
  placement left them, this returns every product a line refers to to its state before
  the order. On every other accepted change no product changes. A valid status for a
  stored, valid order is accepted.
\<close>

theorem updateOrderStatus_effect:
  fixes d :: "int db"
  shows
  "(newStatus \<notin> set validOrderStatuses \<longrightarrow>
      (\<exists>e. updateOrderStatus isValid d orderId newStatus = (Inl e, d))) \<and>
   (fst (updateOrderStatus isValid d orderId newStatus) = Inl e \<longrightarrow>
      snd (updateOrderStatus isValid d orderId newStatus) = d) \<and>
   (fst (updateOrderStatus isValid d orderId newStatus) = Inr saved \<longrightarrow>
      (\<exists>ord. orders d orderId = Some ord \<and>
         saved = order_pre_save (ord\<lparr>o_orderStatus := newStatus\<rparr>) \<and>
         o_orderStatus saved = newStatus \<and>
         orders (snd (updateOrderStatus isValid d orderId newStatus)) =
           (orders d)(orderId \<mapsto> saved) \<and>
         carts (snd (updateOrderStatus isValid d orderId newStatus)) = carts d \<and>
         (newStatus = ''cancelled'' \<and> o_orderStatus ord \<noteq> ''cancelled'' \<longrightarrow>
            (\<forall>pid. products (snd (updateOrderStatus isValid d orderId newStatus)) pid =
               map_option
                 (fold revertItem (filter (\<lambda>item. oi_productId item = pid) (o_items ord)))
                 (products d pid)) \<and>
            (\<forall>pid. pid \<notin> oi_productId ` set (o_items ord) \<longrightarrow>
               products (snd (updateOrderStatus isValid d orderId newStatus)) pid =
                 products d pid)) \<and>
         (\<not> (newStatus = ''cancelled'' \<and> o_orderStatus ord \<noteq> ''cancelled'') \<longrightarrow>
            products (snd (updateOrderStatus isValid d orderId newStatus)) = products d))) \<and>
   revertItem item p =
     (if p_sizes p \<noteq> [] \<and> truthy (oi_selectedSize item)
      then p\<lparr>p_sizes := addSizeStock (oi_selectedSize item) (oi_quantity item) (p_sizes p)\<rparr>
      else if p_colors p \<noteq> [] \<and> truthy (oi_selectedColor item)
      then p\<lparr>p_colors := addColorStock (oi_selectedColor item) (oi_quantity item) (p_colors p)\<rparr>
      else p\<lparr>p_stock := p_stock p + oi_quantity item\<rparr>) \<and>
   ((\<forall>pid q. products before pid = Some q \<longrightarrow> variantNamesValid q) \<and>
    createOrder newId before orderData = (Inr placedOrder, placed) \<and>
    orders d orderId = Some stored \<and> o_items stored = o_items placedOrder \<and>
    o_orderStatus stored \<noteq> ''cancelled'' \<and>
    (\<forall>line\<in>set (o_items placedOrder).
       products d (oi_productId line) = products placed (oi_productId line)) \<and>
    fst (updateOrderStatus isValid d orderId ''cancelled'') = Inr cancelled \<longrightarrow>
      (\<forall>line\<in>set (o_items placedOrder).
         products (snd (updateOrderStatus isValid d orderId ''cancelled'')) (oi_productId line) =
           products before (oi_productId line))) \<and>
   (isValid orderId \<and> orders d orderId = Some stored \<and>
    validate_order (stored\<lparr>o_orderStatus := newStatus\<rparr>) \<longrightarrow>
      fst (updateOrderStatus isValid d orderId newStatus) =
        Inr (order_pre_save (stored\<lparr>o_orderStatus := newStatus\<rparr>)))"
proof -
  let ?r = "updateOrderStatus isValid d orderId newStatus"
  have run: "newStatus \<in> set validOrderStatuses \<and>
             validate_order (ord\<lparr>o_orderStatus := newStatus\<rparr>) \<and>
             status = Inr (order_pre_save (ord\<lparr>o_orderStatus := newStatus\<rparr>)) \<and>
             snd (updateOrderStatus isValid dd oid newStatus) =
               dd\<lparr>orders := (orders dd)(oid \<mapsto> order_pre_save (ord\<lparr>o_orderStatus := newStatus\<rparr>)),
                  products :=
                    (if newStatus = ''cancelled'' \<and> o_orderStatus ord \<noteq> ''cancelled''
                     then revertStock (o_items ord) (products dd)
                     else products dd)\<rparr>"
    if "fst (updateOrderStatus isValid dd oid newStatus) = status" "status = Inr sv"
       "orders dd oid = Some ord"
    for dd :: "int db" and oid newStatus status sv ord
    using that
    by (auto simp: updateOrderStatus_def repo_updateOrderStatus_upd split: if_splits)
  have frame: "(newStatus \<notin> set validOrderStatuses \<longrightarrow> (\<exists>e. ?r = (Inl e, d))) \<and>
               (fst ?r = Inl e \<longrightarrow> snd ?r = d) \<and>
               (fst ?r = Inr saved \<longrightarrow> (\<exists>ord. orders d orderId = Some ord))"
    by (auto simp: updateOrderStatus_def repo_updateOrderStatus_upd split: option.splits if_splits)
  have accepted: "\<exists>ord. orders d orderId = Some ord \<and>
         saved = order_pre_save (ord\<lparr>o_orderStatus := newStatus\<rparr>) \<and>
         o_orderStatus saved = newStatus \<and>
         orders (snd ?r) = (orders d)(orderId \<mapsto> saved) \<and>
         carts (snd ?r) = carts d \<and>
         (newStatus = ''cancelled'' \<and> o_orderStatus ord \<noteq> ''cancelled'' \<longrightarrow>
            (\<forall>pid. products (snd ?r) pid =
               map_option
                 (fold revertItem (filter (\<lambda>item. oi_productId item = pid) (o_items ord)))
                 (products d pid)) \<and>
            (\<forall>pid. pid \<notin> oi_productId ` set (o_items ord) \<longrightarrow>
               products (snd ?r) pid = products d pid)) \<and>
         (\<not> (newStatus = ''cancelled'' \<and> o_orderStatus ord \<noteq> ''cancelled'') \<longrightarrow>
            products (snd ?r) = products d)"
    if ok: "fst ?r = Inr saved"
  proof -
    from frame ok obtain ord where ord: "orders d orderId = Some ord" by blast
    note r = run[OF ok refl ord]
    from r have sv: "saved = order_pre_save (ord\<lparr>o_orderStatus := newStatus\<rparr>)" by simp
    have st: "o_orderStatus saved = newStatus"
      unfolding sv by (simp add: order_pre_save_def)
    from r sv have store: "snd ?r =
        d\<lparr>orders := (orders d)(orderId \<mapsto> saved),
          products :=
            (if newStatus = ''cancelled'' \<and> o_orderStatus ord \<noteq> ''cancelled''
             then revertStock (o_items ord) (products d)
             else products d)\<rparr>"
      by simp
    show ?thesis
      unfolding store using ord sv st
      by (auto simp: revertStock_fold[symmetric] revertStock_other)
  qed
  have link: "products (snd (updateOrderStatus isValid d orderId ''cancelled'')) (oi_productId line) =
           products before (oi_productId line)"
    if valid: "\<forall>pid q. products before pid = Some q \<longrightarrow> variantNamesValid q"
      and created: "createOrder newId before orderData = (Inr placedOrder, placed)"
      and stored: "orders d orderId = Some stored" "o_items stored = o_items placedOrder"
        "o_orderStatus stored \<noteq> ''cancelled''"
      and untouched: "\<forall>line\<in>set (o_items placedOrder).
             products d (oi_productId line) = products placed (oi_productId line)"
      and ok: "fst (updateOrderStatus isValid d orderId ''cancelled'') = Inr cancelled"
      and line: "line \<in> set (o_items placedOrder)"
    for line
  proof -
    from created have c: "fst (createOrder newId before orderData) = Inr placedOrder"
      and p: "placed = snd (createOrder newId before orderData)" by simp_all
    from createOrder_success[OF c] obtain ps where
      dec: "decrementStock (o_items placedOrder) (products before) = Inr ps" and
      dp: "snd (createOrder newId before orderData) =
             before\<lparr>products := ps, orders := (orders before)(newId \<mapsto> placedOrder)\<rparr>"
      by blast
    from p dp have ps: "products placed = ps" by simp
    from run[OF ok refl stored(1)] stored(2,3)
    have "products (snd (updateOrderStatus isValid d orderId ''cancelled'')) =
            revertStock (o_items placedOrder) (products d)"
      by simp
    with revert_restores_referenced[OF dec valid _ line, of "products d"] untouched ps
    show ?thesis by simp
  qed
  have accept: "fst ?r = Inr (order_pre_save (stored\<lparr>o_orderStatus := newStatus\<rparr>))"
    if "isValid orderId" "orders d orderId = Some stored"
       "validate_order (stored\<lparr>o_orderStatus := newStatus\<rparr>)"
    using that
    by (simp add: updateOrderStatus_def repo_updateOrderStatus_upd validate_order_def)
  show ?thesis
    using frame accepted link accept revertItem_add[of item p] by blast
qed

text \<open>On the sample store: cancelling the pending order returns its two units to size
  9, shipping it leaves the product alone, and an unknown status is refused; and the
  order of three units of size 9 placed on the second sample store is cancelled with
  the five units of the size back in stock.\<close>

theorem updateOrderStatus_effect_witness:
  "fst (updateOrderStatus (\<lambda>i. True) ex_db_order ''o1'' ''cancelled'') =
     Inr (order_pre_save (ex_order\<lparr>o_orderStatus := ''cancelled''\<rparr>)) \<and>
   products (snd (updateOrderStatus (\<lambda>i. True) ex_db_order ''o1'' ''cancelled'')) ''p1'' =
     Some (ex_variant\<lparr>p_sizes := [\<lparr>size_name = ''9'', size_stock = 7\<rparr>]\<rparr>) \<and>
   products (snd (updateOrderStatus (\<lambda>i. True) ex_db_order ''o1'' ''shipped'')) ''p1'' =
     Some ex_variant \<and>
   ''lost'' \<notin> set validOrderStatuses \<and>
   updateOrderStatus (\<lambda>i. True) ex_db_order ''o1'' ''lost'' =
     (Inl (InvalidOrderStatus ''lost''), ex_db_order) \<and>
   products (snd (createOrder ''o2'' ex_db_variant ex_orderData)) ''p1'' =
     Some (ex_variant\<lparr>p_sizes := [\<lparr>size_name = ''9'', size_stock = 2\<rparr>]\<rparr>) \<and>
   products (snd (updateOrderStatus (\<lambda>i. True)
                    (snd (createOrder ''o2'' ex_db_variant ex_orderData)) ''o2''
                    ''cancelled'')) ''p1'' = products ex_db_variant ''p1''"
  using updateOrderStatus_effect [where isValid = "\<lambda>i. True" and d = ex_db_order
      and orderId = "''o1''" and newStatus = "''cancelled''" and stored = ex_order
      and saved = "order_pre_save (ex_order\<lparr>o_orderStatus := ''cancelled''\<rparr>)"]
    updateOrderStatus_effect [where isValid = "\<lambda>i. True" and d = ex_db_order
      and orderId = "''o1''" and newStatus = "''lost''"
      and e = "InvalidOrderStatus ''lost''"]
    updateOrderStatus_effect [where isValid = "\<lambda>i. True"
      and d = "snd (createOrder ''o2'' ex_db_variant ex_orderData)"
      and orderId = "''o2''" and newId = "''o2''" and before = ex_db_variant
      and orderData = ex_orderData
      and placed = "snd (createOrder ''o2'' ex_db_variant ex_orderData)"
      and placedOrder = "order_pre_save (new_Order ''o2'' ex_orderData)"
      and stored = "order_pre_save (new_Order ''o2'' ex_orderData)"
      and cancelled = "order_pre_save (new_Order ''o2'' ex_orderData)\<lparr>o_orderStatus := ''cancelled''\<rparr>"]
  by (simp add: status_eval order_eval ex_order_defs ex_db_variant_def ex_orderData_def
        variantNamesValid_def nameValid_def)

subsection \<open>Order placement and stock checks\<close>

lemmas ex_shop_defs = ex_lineOk_def ex_lineNoSize_def ex_lineOver_def ex_db_shop_def
  ex_variant_def ex_offsale_def ex_address_def

lemma snapshotCart_fails:
  "list_ex (lineExceeds d) items \<Longrightarrow> \<exists>e. snapshotCart isValid d items acc tot = Inl e"
proof (induction items arbitrary: acc tot)
  case Nil
  then show ?case by simp
next
  case (Cons line items)
  show ?case
  proof (cases "lineExceeds d line")
    case True
    then show ?thesis
      by (auto simp: lineExceeds_def getProductById_def split: option.splits sum.splits)
  next
    case False
    with Cons.prems have "list_ex (lineExceeds d) items" by simp
    from Cons.IH[OF this] show ?thesis
      by (auto simp: getProductById_def split: option.splits sum.splits)
  qed
qed

lemma snapshotCart_first_exceeding:
  fixes d :: "int db"
  assumes "list_all (\<lambda>l. isValid (ci_product l)) (before @ [line])"
    and "list_all (linePasses d) before"
    and "products d (ci_product line) = Some p"
    and "availableStock p (ci_selectedSize line) (ci_selectedColor line) = Inr available"
    and "available < ci_quantity line"
  shows "snapshotCart isValid d (before @ line # after) acc tot =
           Inl (InsufficientStock (p_name p) (ci_selectedSize line) (ci_selectedColor line)
                  (ci_quantity line) available)"
  using assms
proof (induction before arbitrary: acc tot)
  case Nil
  then show ?case by (simp add: getProductById_def)
next
  case (Cons l before)
  from Cons.prems have ih: "\<And>acc tot. snapshotCart isValid d (before @ line # after) acc tot =
           Inl (InsufficientStock (p_name p) (ci_selectedSize line) (ci_selectedColor line)
                  (ci_quantity line) available)"
    by (intro Cons.IH) simp_all
  from Cons.prems(1,2) show ?case
    by (auto simp: linePasses_def getProductById_def ih split: option.splits sum.splits)
qed

text \<open>
  C1, as stated, fails on the kind of error: in the first sample cart the second line
  asks for more than the stock resolved for it, and the order fails on the first line
  with a size-not-found error, which names no quantity. The store is unchanged.
\<close>

theorem cart_order_other_error_counterexample:
  "lineExceeds ex_db_shop ex_lineOver \<and>
   createOrderFromCart (\<lambda>i. True) ''o1'' ex_db_shop ''u1'' ex_address ''paypal'' =
     (Inl (SizeNotFound (Some ''10'') ''Boot''), ex_db_shop)"
  by (simp add: lineExceeds_def order_eval getOrCreateUserCart_def ex_shop_defs)

text \<open>
  C1, amended. A direct order whose quantity exceeds the stock resolved for its line
  fails; with valid identifiers and a quantity of at least one the error is the
  insufficient-stock error naming the product, the requested and the available quantity.
  An order from a cart with such a line fails; the error is the insufficient-stock error
  of the first such line when every line before it passes its own check (otherwise the
  earlier line's error comes first). In every case the store is returned unchanged: no
  order is created and no stock field of any product changes.
\<close>

theorem insufficient_stock_rejected:
  fixes d :: "int db"
  shows
  "(isValid userId \<and> isValid productId \<and> 1 \<le> quantity \<and> products d productId = Some p \<and>
    availableStock p selectedSize selectedColor = Inr available \<and> available < quantity \<longrightarrow>
      createDirectOrder isValid newId d userId productId quantity shippingAddress paymentMethod
          selectedSize selectedColor =
        (Inl (InsufficientStock (p_name p) selectedSize selectedColor quantity available), d)) \<and>
   (carts d userId = Some cart \<and> list_ex (lineExceeds d) (c_items cart) \<longrightarrow>
      (\<exists>e. createOrderFromCart isValid newId d userId shippingAddress paymentMethod =
             (Inl e, d))) \<and>
   (isValid userId \<and> carts d userId = Some cart \<and> c_items cart = before @ line # after \<and>
    list_all (\<lambda>l. isValid (ci_product l)) (before @ [line]) \<and>
    list_all (linePasses d) before \<and>
    products d (ci_product line) = Some q \<and>
    availableStock q (ci_selectedSize line) (ci_selectedColor line) = Inr avail \<and>
    avail < ci_quantity line \<longrightarrow>
      createOrderFromCart isValid newId d userId shippingAddress paymentMethod =
        (Inl (InsufficientStock (p_name q) (ci_selectedSize line) (ci_selectedColor line)
                (ci_quantity line) avail), d)) \<and>
   (products d productId = Some p \<and>
    availableStock p selectedSize selectedColor = Inr available \<and> available < quantity \<longrightarrow>
      (\<exists>e. createDirectOrder isValid newId d userId productId quantity shippingAddress
              paymentMethod selectedSize selectedColor = (Inl e, d)))"
proof (intro conjI impI)
  assume a: "isValid userId \<and> isValid productId \<and> 1 \<le> quantity \<and>
    products d productId = Some p \<and>
    availableStock p selectedSize selectedColor = Inr available \<and> available < quantity"
  then show "createDirectOrder isValid newId d userId productId quantity shippingAddress
      paymentMethod selectedSize selectedColor =
        (Inl (InsufficientStock (p_name p) selectedSize selectedColor quantity available), d)"
    by (simp add: createDirectOrder_def getProductById_def)
next
  assume a: "carts d userId = Some cart \<and> list_ex (lineExceeds d) (c_items cart)"
  then have ne: "c_items cart \<noteq> []" by auto
  from a obtain e where e: "snapshotCart isValid d (c_items cart) [] 0 = Inl e"
    using snapshotCart_fails[of d "c_items cart" isValid "[]" 0] by blast
  show "\<exists>e. createOrderFromCart isValid newId d userId shippingAddress paymentMethod = (Inl e, d)"
  proof (cases "isValid userId")
    case True
    with a ne e show ?thesis
      by (simp add: createOrderFromCart_def getOrCreateUserCart_def)
  next
    case False
    then show ?thesis by (simp add: createOrderFromCart_def)
  qed
next
  assume a: "isValid userId \<and> carts d userId = Some cart \<and> c_items cart = before @ line # after \<and>
    list_all (\<lambda>l. isValid (ci_product l)) (before @ [line]) \<and>
    list_all (linePasses d) before \<and>
    products d (ci_product line) = Some q \<and>
    availableStock q (ci_selectedSize line) (ci_selectedColor line) = Inr avail \<and>
    avail < ci_quantity line"
  then have "snapshotCart isValid d (c_items cart) [] 0 =
      Inl (InsufficientStock (p_name q) (ci_selectedSize line) (ci_selectedColor line)
             (ci_quantity line) avail)"
    using snapshotCart_first_exceeding[of isValid before line d q avail after "[]" 0] by simp
  with a show "createOrderFromCart isValid newId d userId shippingAddress paymentMethod =
        (Inl (InsufficientStock (p_name q) (ci_selectedSize line) (ci_selectedColor line)
                (ci_quantity line) avail), d)"
    by (simp add: createOrderFromCart_def getOrCreateUserCart_def)
next
  assume "products d productId = Some p \<and>
    availableStock p selectedSize selectedColor = Inr available \<and> available < quantity"
  then show "\<exists>e. createDirectOrder isValid newId d userId productId quantity shippingAddress
              paymentMethod selectedSize selectedColor = (Inl e, d)"
    by (simp add: createDirectOrder_def getProductById_def)
qed

text \<open>On the sample shop: 9 units of a product with 5 in stock, ordered directly and
  through the second cart.\<close>

theorem insufficient_stock_rejected_witness:
  "availableStock ex_offsale None None = Inr 5 \<and>
   createDirectOrder (\<lambda>i. True) ''o1'' ex_db_shop ''u2'' ''p2'' 9 ex_address ''paypal'' None None =
     (Inl (InsufficientStock ''Runner'' None None 9 5), ex_db_shop) \<and>
   linePasses ex_db_shop ex_lineOk \<and> lineExceeds ex_db_shop ex_lineOver \<and>
   createOrderFromCart (\<lambda>i. True) ''o1'' ex_db_shop ''u2'' ex_address ''paypal'' =
     (Inl (InsufficientStock ''Runner'' None None 9 5), ex_db_shop)"
  using insufficient_stock_rejected [where isValid = "\<lambda>i. True" and d = ex_db_shop
      and userId = "''u2''" and productId = "''p2''" and quantity = 9 and p = ex_offsale
      and selectedSize = None and selectedColor = None and available = 5
      and cart = "\<lparr>c_user = ''u2'', c_items = [ex_lineOk, ex_lineOver], c_totalPrice = 820\<rparr>"
      and before = "[ex_lineOk]" and line = ex_lineOver and after = "[]" and q = ex_offsale
      and avail = 5 and newId = "''o1''" and shippingAddress = ex_address
      and paymentMethod = "''paypal''"]
  by (simp add: lineExceeds_def linePasses_def availableStock_def truthy_def ex_shop_defs)

subsection \<open>The stock field a line is checked against and decremented\<close>

lemma snapshot_fields [simp]:
  "oi_productId (new_OrderItem (snapshot pid p q sz col)) = pid"
  "oi_quantity (new_OrderItem (snapshot pid p q sz col)) = q"
  "oi_selectedSize (new_OrderItem (snapshot pid p q sz col)) = map_option trim sz"
  "oi_selectedColor (new_OrderItem (snapshot pid p q sz col)) = map_option trim col"
  by (simp_all add: new_OrderItem_def snapshot_def)

lemma findIndex_False: "findIndex (\<lambda>x. False) xs = None"
  by (induction xs) auto

lemma directOrder_no_selection_fails:
  assumes p: "products d pid = Some p" and v: "p_sizes p \<noteq> [] \<or> p_colors p \<noteq> []"
  shows "\<exists>e. createDirectOrder isValid newId d userId pid q addr pm None None = (Inl e, d)"
proof -
  let ?item = "new_OrderItem (snapshot pid p q None None)"
  let ?od = "\<lparr>od_user = userId, od_items = [snapshot pid p q None None],
              od_totalAmount = effectivePrice p * q, od_shippingAddress = addr,
              od_paymentMethod = pm, od_orderStatus = ''pending'',
              od_paymentStatus = ''pending''\<rparr>"
  from v have "\<exists>e. decrementItem ?item p = Inl e"
    by (auto simp: decrementItem_def findIndex_False)
  then have "\<exists>e. decrementStock [?item] (products d) = Inl e"
    using p by auto
  then have "\<exists>e. createOrder newId d ?od = (Inl e, d)"
    by (auto simp: createOrder_def save_order_def order_pre_save_def new_Order_def
        split: sum.splits)
  then show ?thesis
    using p by (auto simp: createDirectOrder_def getProductById_def availableStock_def truthy_def)
qed

lemma decrementItem_keeps_variants:
  "decrementItem item p = Inr p' \<Longrightarrow>
   (p_sizes p' = [] \<longleftrightarrow> p_sizes p = []) \<and> (p_colors p' = [] \<longleftrightarrow> p_colors p = [])"
  by (auto simp: decrementItem_def split: option.splits if_splits)

lemma decrementItem_unselected:
  "oi_selectedSize item = None \<Longrightarrow> oi_selectedColor item = None \<Longrightarrow>
   p_sizes p \<noteq> [] \<or> p_colors p \<noteq> [] \<Longrightarrow> \<exists>e. decrementItem item p = Inl e"
  by (auto simp: decrementItem_def findIndex_False)

lemma decrementStock_unselected:
  "item \<in> set items \<Longrightarrow> oi_selectedSize item = None \<Longrightarrow> oi_selectedColor item = None \<Longrightarrow>
   ps (oi_productId item) = Some p \<Longrightarrow> p_sizes p \<noteq> [] \<or> p_colors p \<noteq> [] \<Longrightarrow>
   \<exists>e. decrementStock items ps = Inl e"
proof (induction items arbitrary: ps p)
  case Nil
  then show ?case by simp
next
  case (Cons i items)
  show ?case
  proof (cases "ps (oi_productId i)")
    case None
    then show ?thesis by simp
  next
    case (Some r)
    show ?thesis
    proof (cases "decrementItem i r")
      case (Inl e)
      with Some show ?thesis by simp
    next
      case (Inr r')
      have ne: "i \<noteq> item"
      proof
        assume "i = item"
        with Cons.prems Some have "\<exists>e. decrementItem i r = Inl e"
          using decrementItem_unselected[of item p] by simp
        with Inr show False by simp
      qed
      with Cons.prems(1) have mem: "item \<in> set items" by simp
      let ?ps = "ps(oi_productId i \<mapsto> r')"
      obtain p2 where p2: "?ps (oi_productId item) = Some p2"
        "p_sizes p2 \<noteq> [] \<or> p_colors p2 \<noteq> []"
      proof (cases "oi_productId i = oi_productId item")
        case True
        with Some Cons.prems(4) have "r = p" by simp
        with decrementItem_keeps_variants[OF Inr] Cons.prems(5) True that[of r']
        show ?thesis by simp
      next
        case False
        with Cons.prems(4,5) that[of p] show ?thesis by simp
      qed
      have "\<exists>e. decrementStock items ?ps = Inl e"
        using Cons.IH[of ?ps p2] mem Cons.prems(2,3) p2 by blast
      then show ?thesis using Some Inr by simp
    qed
  qed
qed

lemma snapshotCart_items:
  "snapshotCart isValid d lines acc tot = Inr (ois, t) \<Longrightarrow>
   map (\<lambda>i. (oi_productId i, oi_selectedSize i, oi_selectedColor i)) ois =
     map (\<lambda>i. (oi_productId i, oi_selectedSize i, oi_selectedColor i)) acc @
     map (\<lambda>l. (ci_product l, ci_selectedSize l, ci_selectedColor l)) lines"
proof (induction lines arbitrary: acc tot)
  case Nil
  then show ?case by simp
next
  case (Cons l lines)
  from Cons.prems obtain p where
    "snapshotCart isValid d lines
       (acc @ [snapshot (ci_product l) p (ci_quantity l) (ci_selectedSize l) (ci_selectedColor l)])
       (tot + effectivePrice p * ci_quantity l) = Inr (ois, t)"
    by (auto split: option.splits sum.splits if_splits)
  from Cons.IH[OF this] show ?case
    by (simp add: snapshot_def)
qed

lemma createOrder_unselected:
  assumes "item \<in> set (od_items orderData)"
    and "oi_selectedSize item = None" "oi_selectedColor item = None"
    and "products d (oi_productId item) = Some p"
    and "p_sizes p \<noteq> [] \<or> p_colors p \<noteq> []"
  shows "\<exists>e. createOrder newId d orderData = (Inl e, d)"
proof -
  let ?item = "new_OrderItem item"
  have "?item \<in> set (o_items (order_pre_save (new_Order newId orderData)))"
    using assms(1) by (simp add: order_pre_save_def new_Order_def)
  moreover have "oi_selectedSize ?item = None" "oi_selectedColor ?item = None"
    "oi_productId ?item = oi_productId item"
    using assms(2,3) by (simp_all add: new_OrderItem_def)
  ultimately have "\<exists>e. decrementStock (o_items (order_pre_save (new_Order newId orderData)))
      (products d) = Inl e"
    using decrementStock_unselected[of ?item _ "products d" p] assms(4,5) by simp
  then show ?thesis
    by (auto simp: createOrder_def save_order_def split: sum.splits)
qed

lemma cartOrder_no_selection_fails:
  assumes cart: "carts d userId = Some cart"
    and line: "line \<in> set (c_items cart)"
    and sel: "ci_selectedSize line = None" "ci_selectedColor line = None"
    and p: "products d (ci_product line) = Some p"
    and v: "p_sizes p \<noteq> [] \<or> p_colors p \<noteq> []"
  shows "\<exists>e. createOrderFromCart isValid newId d userId addr pm = (Inl e, d)"
proof (cases "isValid userId")
  case False
  then show ?thesis by (simp add: createOrderFromCart_def)
next
  case True
  from line have ne: "c_items cart \<noteq> []" by auto
  show ?thesis
  proof (cases "snapshotCart isValid d (c_items cart) [] 0")
    case (Inl e)
    with True cart ne show ?thesis
      by (simp add: createOrderFromCart_def getOrCreateUserCart_def)
  next
    case (Inr r)
    obtain ois t where r: "r = (ois, t)" by (cases r)
    from snapshotCart_items[OF Inr[unfolded r]] line sel
    have "(ci_product line, None, None) \<in>
            set (map (\<lambda>i. (oi_productId i, oi_selectedSize i, oi_selectedColor i)) ois)"
      by force
    then obtain item where item: "item \<in> set ois" "oi_productId item = ci_product line"
      "oi_selectedSize item = None" "oi_selectedColor item = None"
      by auto
    let ?od = "\<lparr>od_user = userId, od_items = ois, od_totalAmount = t,
                od_shippingAddress = addr, od_paymentMethod = pm,
                od_orderStatus = ''pending'', od_paymentStatus = ''pending''\<rparr>"
    from createOrder_unselected[of item ?od d p newId] item p v
    obtain e where "createOrder newId d ?od = (Inl e, d)" by auto
    with True cart ne Inr r show ?thesis
      by (simp add: createOrderFromCart_def getOrCreateUserCart_def)
  qed
qed

text \<open>
  C4. The check of the service and the decrement of the repository are meant to use the
  same stock field, and a line that selects neither a size nor a color, for a product
  that has sizes or colors, is meant to be ordered against the top-level stock. The
  check does resolve such a line to the top-level stock, and so does the reversal on
  cancellation or deletion. The decrement does not: the repository branches on whether
  the product has sizes (colors), looks for the undefined size (color) among them,
  finds none and throws its insufficient-stock error, whatever the top-level stock is.
  So no such line is ever ordered: the direct order and the order from the cart fail,
  and the store is left as it was.
\<close>

theorem unselected_line_rejected:
  "availableStock p None None = Inr (p_stock p) \<and>
   (oi_selectedSize item = None \<and> p_sizes p \<noteq> [] \<longrightarrow>
      decrementItem item p = Inl (InsufficientSizeStock (p_name p) None)) \<and>
   (oi_selectedColor item = None \<and> p_sizes p = [] \<and> p_colors p \<noteq> [] \<longrightarrow>
      decrementItem item p = Inl (InsufficientColorStock (p_name p) None)) \<and>
   (oi_selectedSize item = None \<and> oi_selectedColor item = None \<longrightarrow>
      revertItem item p = p\<lparr>p_stock := p_stock p + oi_quantity item\<rparr>) \<and>
   (products d productId = Some p \<and> (p_sizes p \<noteq> [] \<or> p_colors p \<noteq> []) \<longrightarrow>
      (\<exists>e. createDirectOrder isValid newId d userId productId quantity shippingAddress
              paymentMethod None None = (Inl e, d))) \<and>
   (carts d userId = Some cart \<and> line \<in> set (c_items cart) \<and>
    ci_selectedSize line = None \<and> ci_selectedColor line = None \<and>
    products d (ci_product line) = Some p \<and> (p_sizes p \<noteq> [] \<or> p_colors p \<noteq> []) \<longrightarrow>
      (\<exists>e. createOrderFromCart isValid newId d userId shippingAddress paymentMethod =
              (Inl e, d)))"
proof (intro conjI impI)
  show "availableStock p None None = Inr (p_stock p)"
    by (simp add: availableStock_def truthy_def)
next
  assume "oi_selectedSize item = None \<and> p_sizes p \<noteq> []"
  then show "decrementItem item p = Inl (InsufficientSizeStock (p_name p) None)"
    by (simp add: decrementItem_def findIndex_False)
next
  assume "oi_selectedColor item = None \<and> p_sizes p = [] \<and> p_colors p \<noteq> []"
  then show "decrementItem item p = Inl (InsufficientColorStock (p_name p) None)"
    by (simp add: decrementItem_def findIndex_False)
next
  assume "oi_selectedSize item = None \<and> oi_selectedColor item = None"
  then show "revertItem item p = p\<lparr>p_stock := p_stock p + oi_quantity item\<rparr>"
    by (simp add: revertItem_def truthy_def)
next
  assume "products d productId = Some p \<and> (p_sizes p \<noteq> [] \<or> p_colors p \<noteq> [])"
  then show "\<exists>e. createDirectOrder isValid newId d userId productId quantity shippingAddress
              paymentMethod None None = (Inl e, d)"
    using directOrder_no_selection_fails[of d productId p] by blast
next
  assume "carts d userId = Some cart \<and> line \<in> set (c_items cart) \<and>
    ci_selectedSize line = None \<and> ci_selectedColor line = None \<and>
    products d (ci_product line) = Some p \<and> (p_sizes p \<noteq> [] \<or> p_colors p \<noteq> [])"
  then show "\<exists>e. createOrderFromCart isValid newId d userId shippingAddress paymentMethod =
              (Inl e, d)"
    using cartOrder_no_selection_fails[of d userId cart line p] by blast
qed

text \<open>The sample product with sizes, ten units of top-level stock and one unit asked
  for with no size and no color: the check resolves the ten units, and the direct order
  and the order from the cart are refused by the decrement.\<close>

theorem unselected_line_rejected_witness:
  "p_sizes (ex_variant\<lparr>p_stock := 10\<rparr>) \<noteq> [] \<and>
   availableStock (ex_variant\<lparr>p_stock := 10\<rparr>) None None = Inr 10 \<and>
   createDirectOrder (\<lambda>i. True) ''o1'' ex_db_stocked ''u1'' ''p1'' 1 ex_address ''paypal''
       None None =
     (Inl (InsufficientSizeStock ''Boot'' None), ex_db_stocked) \<and>
   carts ex_db_stocked ''u1'' =
     Some \<lparr>c_user = ''u1'', c_items = [ex_lineA], c_totalPrice = 100\<rparr> \<and>
   createOrderFromCart (\<lambda>i. True) ''o1'' ex_db_stocked ''u1'' ex_address ''paypal'' =
     (Inl (InsufficientSizeStock ''Boot'' None), ex_db_stocked) \<and>
   revertItem (snapshot ''p1'' (ex_variant\<lparr>p_stock := 10\<rparr>) 1 None None)
       (ex_variant\<lparr>p_stock := 10\<rparr>) =
     ex_variant\<lparr>p_stock := 11\<rparr>"
  using unselected_line_rejected [where isValid = "\<lambda>i. True" and newId = "''o1''"
      and d = ex_db_stocked and userId = "''u1''" and productId = "''p1''" and quantity = 1
      and shippingAddress = ex_address and paymentMethod = "''paypal''"
      and p = "ex_variant\<lparr>p_stock := 10\<rparr>" and line = ex_lineA
      and item = "snapshot ''p1'' (ex_variant\<lparr>p_stock := 10\<rparr>) 1 None None"
      and cart = "\<lparr>c_user = ''u1'', c_items = [ex_lineA], c_totalPrice = 100\<rparr>"]
  by (simp add: order_eval getOrCreateUserCart_def ex_db_stocked_def ex_variant_def
        ex_address_def ex_lineA_def)

subsection \<open>Login lockout\<close>

lemma findIndex_map: "findIndex (\<lambda>x. P (f x)) xs = findIndex P (map f xs)"
  by (induction xs) auto

lemma findIndex_distinct:
  "distinct (map f xs) \<Longrightarrow> i < length xs \<Longrightarrow> findIndex (\<lambda>v. f v = f (xs ! i)) xs = Some i"
proof (induction xs arbitrary: i)
  case Nil
  then show ?case by simp
next
  case (Cons x xs)
  show ?case
  proof (cases i)
    case 0
    then show ?thesis by simp
  next
    case (Suc k)
    with Cons.prems have "f x \<noteq> f (xs ! k)" by auto
    with Suc Cons show ?thesis by simp
  qed
qed

lemma find_first:
  "find P xs = Some x \<longleftrightarrow> (\<exists>i<length xs. xs ! i = x \<and> P x \<and> list_all (\<lambda>y. \<not> P y) (take i xs))"
proof (induction xs)
  case Nil
  then show ?case by simp
next
  case (Cons a xs)
  show ?case
  proof (cases "P a")
    case True
    show ?thesis
    proof
      assume "find P (a # xs) = Some x"
      with True have "a = x" by simp
      with True show "\<exists>i<length (a # xs). (a # xs) ! i = x \<and> P x \<and>
          list_all (\<lambda>y. \<not> P y) (take i (a # xs))"
        by (intro exI[of _ 0]) simp
    next
      assume "\<exists>i<length (a # xs). (a # xs) ! i = x \<and> P x \<and>
          list_all (\<lambda>y. \<not> P y) (take i (a # xs))"
      then obtain i where i: "i < length (a # xs)" "(a # xs) ! i = x"
        "list_all (\<lambda>y. \<not> P y) (take i (a # xs))" by blast
      with True have "i = 0" by (cases i) auto
      with i True show "find P (a # xs) = Some x" by simp
    qed
  next
    case False
    show ?thesis
    proof
      assume "find P (a # xs) = Some x"
      with False Cons.IH obtain i where "i < length xs" "xs ! i = x" "P x"
        "list_all (\<lambda>y. \<not> P y) (take i xs)" by auto
      with False show "\<exists>i<length (a # xs). (a # xs) ! i = x \<and> P x \<and>
          list_all (\<lambda>y. \<not> P y) (take i (a # xs))"
        by (intro exI[of _ "Suc i"]) simp
    next
      assume "\<exists>i<length (a # xs). (a # xs) ! i = x \<and> P x \<and>
          list_all (\<lambda>y. \<not> P y) (take i (a # xs))"
      then obtain i where i: "i < length (a # xs)" "(a # xs) ! i = x" "P x"
        "list_all (\<lambda>y. \<not> P y) (take i (a # xs))" by blast
      with False obtain k where k: "i = Suc k" by (cases i) auto
      with i have "k < length xs" "xs ! k = x" "list_all (\<lambda>y. \<not> P y) (take k xs)"
        by auto
      with i(3) Cons.IH False show "find P (a # xs) = Some x" by auto
    qed
  qed
qed

lemma accountAt_found:
  assumes "distinct (map u_id users)" "getUserByEmail users email = Some u"
  shows "\<exists>i. accountAt users email i u"
proof -
  from assms(2) obtain i where i: "i < length users" "users ! i = u"
    "u_email u = castEmail email"
    "list_all (\<lambda>v. u_email v \<noteq> castEmail email) (take i users)"
    unfolding getUserByEmail_def find_first by blast
  with assms(1) findIndex_distinct[of u_id users i] show ?thesis
    by (auto simp: accountAt_def)
qed

lemma accountAt_lookup: "accountAt users email i u \<Longrightarrow> getUserByEmail users email = Some u"
  unfolding getUserByEmail_def find_first accountAt_def by blast

lemma accountAt_update:
  assumes "accountAt users email i u" "u_id u' = u_id u" "u_email u' = u_email u"
  shows "accountAt (users[i := u']) email i u'"
proof -
  from assms(1) have i: "i < length users" "users ! i = u" "u_email u = castEmail email"
    "list_all (\<lambda>v. u_email v \<noteq> castEmail email) (take i users)" and
    f: "findIndex (\<lambda>v. u_id v = u_id u) users = Some i"
    by (auto simp: accountAt_def)
  have ids: "map u_id (users[i := u']) = map u_id users"
    using i assms(2) by (simp add: map_update list_update_same_conv)
  have "findIndex (\<lambda>v. u_id v = u_id u) (users[i := u']) =
          findIndex (\<lambda>k. k = u_id u) (map u_id (users[i := u']))"
    by (rule findIndex_map)
  also have "\<dots> = findIndex (\<lambda>k. k = u_id u) (map u_id users)"
    by (simp only: ids)
  also have "\<dots> = findIndex (\<lambda>v. u_id v = u_id u) users"
    by (rule findIndex_map[symmetric])
  finally have f': "findIndex (\<lambda>v. u_id v = u_id u') (users[i := u']) = Some i"
    using f assms(2) by simp
  with i assms(3) show ?thesis
    by (simp add: accountAt_def)
qed

lemma accountAt_findByIdAndUpdate:
  "accountAt users email i u \<Longrightarrow>
   findByIdAndUpdate users (u_id u) f = (Some (f u), users[i := f u])"
  by (simp add: accountAt_def findByIdAndUpdate_def)

lemma update_keeps [simp]:
  "u_id (resetUpdate u) = u_id u" "u_email (resetUpdate u) = u_email u"
  "u_password (resetUpdate u) = u_password u"
  "u_id (incrementUpdate now l u) = u_id u" "u_email (incrementUpdate now l u) = u_email u"
  "u_id (permanentLockUpdate u) = u_id u" "u_email (permanentLockUpdate u) = u_email u"
  by (simp_all add: resetUpdate_def incrementUpdate_def permanentLockUpdate_def
        split: option.splits)

lemma repo_lift:
  assumes "accountAt users email i u"
  shows "resetFailedLoginAttempts users (u_id u) = (Some (resetUpdate u), users[i := resetUpdate u])"
    and "incrementFailedLoginAttempts now users (u_id u) l =
           (Some (incrementUpdate now l u), users[i := incrementUpdate now l u])"
    and "permanentlyLockUser users (u_id u) =
           (Some (permanentLockUpdate u), users[i := permanentLockUpdate u])"
  using accountAt_findByIdAndUpdate[OF assms]
  by (simp_all add: resetFailedLoginAttempts_def incrementFailedLoginAttempts_def
        permanentlyLockUser_def)

lemma loginUser_lift:
  assumes a: "accountAt users email i u"
  shows "loginUser compare now users email password =
           (fst (loginStep compare now password u),
            users[i := snd (loginStep compare now password u)])"
proof -
  have g: "getUserByEmail users email = Some u" by (rule accountAt_lookup[OF a])
  have same: "users[i := u] = users" using a by (auto simp: accountAt_def)
  show ?thesis
  proof (cases "isPermanentlyLocked u \<or> lockActive now u")
    case True
    then show ?thesis
      using g same by (auto simp: loginUser_def loginStep_def)
  next
    case unlocked: False
    define u1 where "u1 = (if counterStale now u then resetUpdate u else u)"
    define users1 where "users1 = users[i := u1]"
    have a1: "accountAt users1 email i u1"
      unfolding users1_def u1_def using a same accountAt_update[OF a, of "resetUpdate u"]
      by simp
    have r1: "(if counterStale now u then resetFailedLoginAttempts users (u_id u)
               else (Some u, users)) = (Some u1, users1)"
      unfolding users1_def u1_def using repo_lift(1)[OF a] same by simp
    have id1: "u_id u1 = u_id u" unfolding u1_def by simp
    show ?thesis
    proof (cases "compare password (u_password u1)")
      case True
      have "loginUser compare now users email password =
              (if hasLockoutState u1 then (Inr (resetUpdate u1), users1[i := resetUpdate u1])
               else (Inr u1, users1))"
        using unlocked g True r1 repo_lift(1)[OF a1]
        by (simp add: loginUser_def)
      moreover have "loginStep compare now password u =
              (if hasLockoutState u1 then (Inr (resetUpdate u1), resetUpdate u1)
               else (Inr u1, u1))"
        using unlocked True by (simp add: loginStep_def u1_def Let_def)
      ultimately show ?thesis
        by (simp add: users1_def)
    next
      case False
      define u2 where "u2 = incrementUpdate now None u1"
      define users2 where "users2 = users1[i := u2]"
      have a2: "accountAt users2 email i u2"
        unfolding users2_def u2_def using accountAt_update[OF a1, of "incrementUpdate now None u1"]
        by simp
      have "loginUser compare now users email password =
              (if MAX_LOGIN_ATTEMPTS < failedLoginAttempts u2
               then (Inl NowLockedPermanently, users2[i := permanentLockUpdate u2])
               else if failedLoginAttempts u2 = MAX_LOGIN_ATTEMPTS
               then (Inl (NowLockedTemporarily (TEMPORARY_LOCK_TIME div (1000 * 60))),
                     users2[i := incrementUpdate now (Some (now + TEMPORARY_LOCK_TIME)) u2])
               else (Inl InvalidCredentials, users2))"
        using unlocked g False r1 repo_lift(2)[OF a1, of now None] repo_lift(3)[OF a2]
          repo_lift(2)[OF a2, of now "Some (now + TEMPORARY_LOCK_TIME)"]
        by (simp add: loginUser_def u2_def[symmetric] users2_def[symmetric])
      moreover have "loginStep compare now password u =
              (if MAX_LOGIN_ATTEMPTS < failedLoginAttempts u2
               then (Inl NowLockedPermanently, permanentLockUpdate u2)
               else if failedLoginAttempts u2 = MAX_LOGIN_ATTEMPTS
               then (Inl (NowLockedTemporarily (TEMPORARY_LOCK_TIME div (1000 * 60))),
                     incrementUpdate now (Some (now + TEMPORARY_LOCK_TIME)) u2)
               else (Inl InvalidCredentials, u2))"
        using unlocked False by (simp add: loginStep_def u1_def u2_def Let_def)
      ultimately show ?thesis
        by (simp add: users2_def users1_def)
    qed
  qed
qed

lemma loginStep_keeps:
  "u_id (snd (loginStep compare now password u)) = u_id u \<and>
   u_email (snd (loginStep compare now password u)) = u_email u"
  by (simp add: loginStep_def Let_def)

lemma loginRun_lift:
  "accountAt users email i u \<Longrightarrow>
   loginRun compare ts users email password =
     (fst (stepRun compare ts password u), users[i := snd (stepRun compare ts password u)]) \<and>
   accountAt (users[i := snd (stepRun compare ts password u)]) email i
     (snd (stepRun compare ts password u))"
proof (induction compare ts password u arbitrary: users rule: stepRun.induct)
  case (1 compare password u)
  then show ?case by (auto simp: accountAt_def)
next
  case (2 compare t password u)
  from accountAt_update[OF 2, of "snd (loginStep compare t password u)"]
  show ?case
    by (simp add: loginUser_lift[OF 2] loginStep_keeps)
next
  case (3 compare t v va password u)
  let ?u1 = "snd (loginStep compare t password u)"
  have a1: "accountAt (users[i := ?u1]) email i ?u1"
    using accountAt_update[OF "3.prems", of ?u1] by (simp add: loginStep_keeps)
  from "3.IH"[OF a1] show ?case
    by (simp add: loginUser_lift[OF "3.prems"])
qed

lemma castEmail_sample: "castEmail ''a@b.c'' = ''a@b.c''"
  by (simp add: castEmail_def toLowerCase_def lower_char_def trim_def is_space_def)

lemmas login_eval =
  loginUser_def getUserByEmail_def castEmail_sample findByIdAndUpdate_def resetFailedLoginAttempts_def
  incrementFailedLoginAttempts_def permanentlyLockUser_def resetUpdate_def incrementUpdate_def
  permanentLockUpdate_def lockActive_def counterStale_def hasLockoutState_def
  remainingLockTime_def MAX_LOGIN_ATTEMPTS_def TEMPORARY_LOCK_TIME_def
  FAILED_ATTEMPT_RESET_PERIOD_def

lemmas step_eval =
  loginStep_def Let_def resetUpdate_def incrementUpdate_def permanentLockUpdate_def
  lockActive_def counterStale_def hasLockoutState_def remainingLockTime_def
  MAX_LOGIN_ATTEMPTS_def TEMPORARY_LOCK_TIME_def FAILED_ATTEMPT_RESET_PERIOD_def

text \<open>
  C9, as stated, fails for the attempt after the threshold: five failed attempts at
  times 0 to 4000 lock the account temporarily until 64000; a sixth wrong password at
  1864000, more than the reset period after the fifth, only restarts the counter at 1,
  and one at 5000, while the lock is active, is refused before the password is compared.
  Neither locks the account permanently.
\<close>

theorem sixth_failure_counterexample:
  "loginRun (=) [0, 1000, 2000, 3000, 4000] [ex_user] ''a@b.c'' ''guess'' =
     (Some (Inl (NowLockedTemporarily 1)), [ex_locked]) \<and>
   loginUser (=) 1864000 [ex_locked] ''a@b.c'' ''guess'' =
     (Inl InvalidCredentials,
      [ex_locked\<lparr>failedLoginAttempts := 1, lockUntil := None,
                  lastFailedAttemptAt := Some 1864000\<rparr>]) \<and>
   loginUser (=) 5000 [ex_locked] ''a@b.c'' ''guess'' =
     (Inl (AccountLockedTemporarily 1), [ex_locked])"
  by (simp add: login_eval ex_user_def ex_locked_def)

lemma run_five:
  assumes "failedLoginAttempts u = 0" "lockUntil u = None" "\<not> isPermanentlyLocked u"
    "\<not> compare password (u_password u)"
    "tb - ta \<le> FAILED_ATTEMPT_RESET_PERIOD" "tc - tb \<le> FAILED_ATTEMPT_RESET_PERIOD"
    "td - tc \<le> FAILED_ATTEMPT_RESET_PERIOD" "te - td \<le> FAILED_ATTEMPT_RESET_PERIOD"
  shows "stepRun compare [ta, tb, tc, td] password u =
           (Some (Inl InvalidCredentials),
            u\<lparr>failedLoginAttempts := 4, lastFailedAttemptAt := Some td\<rparr>)"
    and "stepRun compare [ta, tb, tc, td, te] password u =
           (Some (Inl (NowLockedTemporarily 1)),
            u\<lparr>failedLoginAttempts := 6, lastFailedAttemptAt := Some te,
              lockUntil := Some (te + TEMPORARY_LOCK_TIME)\<rparr>)"
  using assms by (simp_all add: step_eval)

lemma lifted_lookup:
  assumes "accountAt users email i u" "u_id u' = u_id u" "u_email u' = u_email u"
  shows "getUserByEmail (users[i := u']) email = Some u'"
  by (rule accountAt_lookup[OF accountAt_update[OF assms]])

text \<open>
  C9, amended. For a store with distinct user identifiers and the account found for the
  email address: (1) a permanently locked account is refused first, whatever else holds;
  (2) otherwise an unexpired temporary lock refuses the attempt before any password is
  compared, and nothing changes; (3) otherwise a stale counter is reset before the
  password is compared, so that a wrong password then counts as the first failure;
  (4) a correct password (no permanent lock, no unexpired temporary lock) logs in and
  leaves the counter at 0 and no temporary lock; (5) five wrong passwords in a row on a
  fresh account, each within the reset period of the one before, leave the account
  unlocked after the fourth and temporarily locked after the fifth, until the time of
  the fifth plus the lock time (the counter then stands at 6, the fifth failure being
  counted twice); (6) a wrong password for an account at or above the threshold, given
  once the temporary lock has expired and before the counter is stale, locks the account
  permanently.
\<close>

theorem login_lockout:
  assumes ids: "distinct (map u_id users)"
    and found: "getUserByEmail users email = Some u"
  shows
   "(isPermanentlyLocked u \<longrightarrow>
       loginUser compare now users email password = (Inl AccountLockedPermanently, users)) \<and>
    (\<not> isPermanentlyLocked u \<and> lockActive now u \<longrightarrow>
       loginUser compare now users email password =
         (Inl (AccountLockedTemporarily (remainingLockTime now u)), users)) \<and>
    (\<not> isPermanentlyLocked u \<and> \<not> lockActive now u \<and> counterStale now u \<and>
     \<not> compare password (u_password u) \<longrightarrow>
       fst (loginUser compare now users email password) = Inl InvalidCredentials \<and>
       getUserByEmail (snd (loginUser compare now users email password)) email =
         Some (incrementUpdate now None (resetUpdate u))) \<and>
    (\<not> isPermanentlyLocked u \<and> \<not> lockActive now u \<and> 0 \<le> failedLoginAttempts u \<and>
     compare password (u_password u) \<longrightarrow>
       (\<exists>u'. fst (loginUser compare now users email password) = Inr u' \<and>
             getUserByEmail (snd (loginUser compare now users email password)) email = Some u' \<and>
             failedLoginAttempts u' = 0 \<and> lockUntil u' = None \<and> \<not> isPermanentlyLocked u')) \<and>
    (failedLoginAttempts u = 0 \<and> lockUntil u = None \<and> \<not> isPermanentlyLocked u \<and>
     \<not> compare password (u_password u) \<and>
     tb - ta \<le> FAILED_ATTEMPT_RESET_PERIOD \<and> tc - tb \<le> FAILED_ATTEMPT_RESET_PERIOD \<and>
     td - tc \<le> FAILED_ATTEMPT_RESET_PERIOD \<and> te - td \<le> FAILED_ATTEMPT_RESET_PERIOD \<longrightarrow>
       fst (loginRun compare [ta, tb, tc, td] users email password) =
         Some (Inl InvalidCredentials) \<and>
       getUserByEmail (snd (loginRun compare [ta, tb, tc, td] users email password)) email =
         Some (u\<lparr>failedLoginAttempts := 4, lastFailedAttemptAt := Some td\<rparr>) \<and>
       fst (loginRun compare [ta, tb, tc, td, te] users email password) =
         Some (Inl (NowLockedTemporarily 1)) \<and>
       getUserByEmail (snd (loginRun compare [ta, tb, tc, td, te] users email password)) email =
         Some (u\<lparr>failedLoginAttempts := 6, lastFailedAttemptAt := Some te,
                 lockUntil := Some (te + TEMPORARY_LOCK_TIME)\<rparr>)) \<and>
    (\<not> isPermanentlyLocked u \<and> \<not> lockActive now u \<and> \<not> counterStale now u \<and>
     MAX_LOGIN_ATTEMPTS \<le> failedLoginAttempts u \<and> \<not> compare password (u_password u) \<longrightarrow>
       fst (loginUser compare now users email password) = Inl NowLockedPermanently \<and>
       getUserByEmail (snd (loginUser compare now users email password)) email =
         Some (u\<lparr>isPermanentlyLocked := True, lockUntil := None, failedLoginAttempts := 0,
                 lastFailedAttemptAt := None\<rparr>))"
proof -
  from accountAt_found[OF ids found] obtain i where a: "accountAt users email i u" by blast
  have same: "users[i := u] = users" using a by (auto simp: accountAt_def)
  note lift = loginUser_lift[OF a, of compare now password]
  have look: "getUserByEmail (snd (loginUser compare now users email password)) email =
      Some (snd (loginStep compare now password u))"
    unfolding lift using lifted_lookup[OF a] loginStep_keeps by simp
  have run: "\<And>ts. fst (loginRun compare ts users email password) =
        fst (stepRun compare ts password u) \<and>
      getUserByEmail (snd (loginRun compare ts users email password)) email =
        Some (snd (stepRun compare ts password u))"
    using loginRun_lift[OF a] accountAt_lookup by fastforce
  have A: "isPermanentlyLocked u \<longrightarrow>
       loginUser compare now users email password = (Inl AccountLockedPermanently, users)"
    unfolding lift using same by (simp add: loginStep_def)
  have B: "\<not> isPermanentlyLocked u \<and> lockActive now u \<longrightarrow>
       loginUser compare now users email password =
         (Inl (AccountLockedTemporarily (remainingLockTime now u)), users)"
    unfolding lift using same by (simp add: loginStep_def)
  have C: "\<not> isPermanentlyLocked u \<and> \<not> lockActive now u \<and> counterStale now u \<and>
     \<not> compare password (u_password u) \<longrightarrow>
       fst (loginUser compare now users email password) = Inl InvalidCredentials \<and>
       getUserByEmail (snd (loginUser compare now users email password)) email =
         Some (incrementUpdate now None (resetUpdate u))"
    unfolding look unfolding lift
    by (simp add: loginStep_def Let_def resetUpdate_def incrementUpdate_def
          MAX_LOGIN_ATTEMPTS_def)
  have D: "\<not> isPermanentlyLocked u \<and> \<not> lockActive now u \<and> 0 \<le> failedLoginAttempts u \<and>
     compare password (u_password u) \<longrightarrow>
       (\<exists>u'. fst (loginUser compare now users email password) = Inr u' \<and>
             getUserByEmail (snd (loginUser compare now users email password)) email = Some u' \<and>
             failedLoginAttempts u' = 0 \<and> lockUntil u' = None \<and> \<not> isPermanentlyLocked u')"
    unfolding look unfolding lift
    by (auto simp: loginStep_def Let_def resetUpdate_def hasLockoutState_def
          split: option.splits)
  have E: "failedLoginAttempts u = 0 \<and> lockUntil u = None \<and> \<not> isPermanentlyLocked u \<and>
     \<not> compare password (u_password u) \<and>
     tb - ta \<le> FAILED_ATTEMPT_RESET_PERIOD \<and> tc - tb \<le> FAILED_ATTEMPT_RESET_PERIOD \<and>
     td - tc \<le> FAILED_ATTEMPT_RESET_PERIOD \<and> te - td \<le> FAILED_ATTEMPT_RESET_PERIOD \<longrightarrow>
       fst (loginRun compare [ta, tb, tc, td] users email password) =
         Some (Inl InvalidCredentials) \<and>
       getUserByEmail (snd (loginRun compare [ta, tb, tc, td] users email password)) email =
         Some (u\<lparr>failedLoginAttempts := 4, lastFailedAttemptAt := Some td\<rparr>) \<and>
       fst (loginRun compare [ta, tb, tc, td, te] users email password) =
         Some (Inl (NowLockedTemporarily 1)) \<and>
       getUserByEmail (snd (loginRun compare [ta, tb, tc, td, te] users email password)) email =
         Some (u\<lparr>failedLoginAttempts := 6, lastFailedAttemptAt := Some te,
                 lockUntil := Some (te + TEMPORARY_LOCK_TIME)\<rparr>)"
  proof (intro impI)
    assume h: "failedLoginAttempts u = 0 \<and> lockUntil u = None \<and> \<not> isPermanentlyLocked u \<and>
     \<not> compare password (u_password u) \<and>
     tb - ta \<le> FAILED_ATTEMPT_RESET_PERIOD \<and> tc - tb \<le> FAILED_ATTEMPT_RESET_PERIOD \<and>
     td - tc \<le> FAILED_ATTEMPT_RESET_PERIOD \<and> te - td \<le> FAILED_ATTEMPT_RESET_PERIOD"
    then have s4: "stepRun compare [ta, tb, tc, td] password u =
           (Some (Inl InvalidCredentials),
            u\<lparr>failedLoginAttempts := 4, lastFailedAttemptAt := Some td\<rparr>)"
      and s5: "stepRun compare [ta, tb, tc, td, te] password u =
           (Some (Inl (NowLockedTemporarily 1)),
            u\<lparr>failedLoginAttempts := 6, lastFailedAttemptAt := Some te,
              lockUntil := Some (te + TEMPORARY_LOCK_TIME)\<rparr>)"
      using run_five[of u compare password tb ta tc td te] by blast+
    from run[of "[ta, tb, tc, td]"] run[of "[ta, tb, tc, td, te]"]
    show "fst (loginRun compare [ta, tb, tc, td] users email password) =
         Some (Inl InvalidCredentials) \<and>
       getUserByEmail (snd (loginRun compare [ta, tb, tc, td] users email password)) email =
         Some (u\<lparr>failedLoginAttempts := 4, lastFailedAttemptAt := Some td\<rparr>) \<and>
       fst (loginRun compare [ta, tb, tc, td, te] users email password) =
         Some (Inl (NowLockedTemporarily 1)) \<and>
       getUserByEmail (snd (loginRun compare [ta, tb, tc, td, te] users email password)) email =
         Some (u\<lparr>failedLoginAttempts := 6, lastFailedAttemptAt := Some te,
                 lockUntil := Some (te + TEMPORARY_LOCK_TIME)\<rparr>)"
      unfolding s4 s5 fst_conv snd_conv by blast
  qed
  have F: "\<not> isPermanentlyLocked u \<and> \<not> lockActive now u \<and> \<not> counterStale now u \<and>
     MAX_LOGIN_ATTEMPTS \<le> failedLoginAttempts u \<and> \<not> compare password (u_password u) \<longrightarrow>
       fst (loginUser compare now users email password) = Inl NowLockedPermanently \<and>
       getUserByEmail (snd (loginUser compare now users email password)) email =
         Some (u\<lparr>isPermanentlyLocked := True, lockUntil := None, failedLoginAttempts := 0,
                 lastFailedAttemptAt := None\<rparr>)"
    unfolding look unfolding lift
    by (simp add: loginStep_def Let_def incrementUpdate_def permanentLockUpdate_def)
  from A B C D E F show ?thesis by blast
qed

text \<open>The sample account through every case: four and five failures, an attempt during
  the lock, a failure after the lock expired, an attempt on the permanently locked
  account, a failure after the reset period, and a correct password after three
  failures.\<close>

theorem login_lockout_witness:
  "fst (loginRun (=) [0, 1000, 2000, 3000] [ex_user] ''a@b.c'' ''guess'') =
     Some (Inl InvalidCredentials) \<and>
   loginRun (=) [0, 1000, 2000, 3000, 4000] [ex_user] ''a@b.c'' ''guess'' =
     (Some (Inl (NowLockedTemporarily 1)), [ex_locked]) \<and>
   loginUser (=) 5000 [ex_locked] ''a@b.c'' ''secret'' =
     (Inl (AccountLockedTemporarily 1), [ex_locked]) \<and>
   loginUser (=) 70000 [ex_locked] ''a@b.c'' ''guess'' =
     (Inl NowLockedPermanently,
      [ex_locked\<lparr>isPermanentlyLocked := True, lockUntil := None, failedLoginAttempts := 0,
                  lastFailedAttemptAt := None\<rparr>]) \<and>
   loginUser (=) 80000
       [ex_locked\<lparr>isPermanentlyLocked := True, lockUntil := None, failedLoginAttempts := 0,
                  lastFailedAttemptAt := None\<rparr>] ''a@b.c'' ''secret'' =
     (Inl AccountLockedPermanently,
      [ex_locked\<lparr>isPermanentlyLocked := True, lockUntil := None, failedLoginAttempts := 0,
                  lastFailedAttemptAt := None\<rparr>]) \<and>
   loginUser (=) 1864000 [ex_locked] ''a@b.c'' ''guess'' =
     (Inl InvalidCredentials,
      [ex_locked\<lparr>failedLoginAttempts := 1, lockUntil := None,
                  lastFailedAttemptAt := Some 1864000\<rparr>]) \<and>
   loginUser (=) 3500 [ex_user\<lparr>failedLoginAttempts := 3, lastFailedAttemptAt := Some 3000\<rparr>]
       ''a@b.c'' ''secret'' =
     (Inr ex_user, [ex_user])"
  using
    login_lockout [where users = "[ex_user]" and email = "''a@b.c''" and u = ex_user
      and compare = "(=)" and password = "''guess''" and ta = 0 and tb = 1000
      and tc = 2000 and td = 3000 and te = 4000]
    login_lockout [where users = "[ex_locked]" and email = "''a@b.c''" and u = ex_locked
      and compare = "(=)" and password = "''secret''" and now = 5000]
    login_lockout [where users = "[ex_locked]" and email = "''a@b.c''" and u = ex_locked
      and compare = "(=)" and password = "''guess''" and now = 70000]
    login_lockout [where
      users = "[ex_locked\<lparr>isPermanentlyLocked := True, lockUntil := None,
                  failedLoginAttempts := 0, lastFailedAttemptAt := None\<rparr>]"
      and email = "''a@b.c''"
      and u = "ex_locked\<lparr>isPermanentlyLocked := True, lockUntil := None,
                  failedLoginAttempts := 0, lastFailedAttemptAt := None\<rparr>"
      and compare = "(=)" and password = "''secret''" and now = 80000]
    login_lockout [where users = "[ex_locked]" and email = "''a@b.c''" and u = ex_locked
      and compare = "(=)" and password = "''guess''" and now = 1864000]
    login_lockout [where
      users = "[ex_user\<lparr>failedLoginAttempts := 3, lastFailedAttemptAt := Some 3000\<rparr>]"
      and email = "''a@b.c''"
      and u = "ex_user\<lparr>failedLoginAttempts := 3, lastFailedAttemptAt := Some 3000\<rparr>"
      and compare = "(=)" and password = "''secret''" and now = 3500]
  by (simp add: login_eval ex_user_def ex_locked_def)

end
